theory Spec2Isabelle
  imports Main
begin

section \<open>The chat backend (server.js): data model\<close>

text \<open>
  The server is one Express application. Its handlers are embedded as pure functions of
  the request, the process state (the \<open>conversations\<close> map), the \<open>daily_usage\<close> table of
  the relational store, and an environment \<open>env\<close> that gives the reply of every awaited
  call to a hosted service (Supabase, Pinecone, Gemini). Strings are \<open>string\<close>; a
  character stands for one UTF-16 code unit below 256.
\<close>

subsection \<open>Awaited calls\<close>

text \<open>An awaited promise either rejects (the \<open>catch\<close> block runs) or resolves to a value.\<close>

datatype 'a outcome = Throws | Returns 'a

text \<open>The Supabase client resolves a query to an object \<open>{ data, error }\<close>.\<close>

datatype 'a db_reply = DbReply (reply_data: "'a option") (reply_error: "string option")

text \<open>
  How a single request against the \<open>daily_usage\<close> table can go wrong: not at all, by
  resolving to \<open>{ data: null, error }\<close>, or by rejecting.
\<close>

datatype fault = NoFault | ErrorReply | Throw

subsection \<open>CHAT_CONFIG\<close>

definition MAX_HISTORY_GEMINI :: nat where
  "MAX_HISTORY_GEMINI = 20"

definition MAX_MESSAGES_PER_CHAT :: int where
  "MAX_MESSAGES_PER_CHAT = 200"

definition SUGGEST_NEW_CHAT_AT :: int where
  "SUGGEST_NEW_CHAT_AT = 100"

definition WARN_LONG_CHAT_AT :: int where
  "WARN_LONG_CHAT_AT = 50"

subsection \<open>Rows of the relational store\<close>

text \<open>
  A row of \<open>users\<close> as the handlers select it; every column is nullable. The columns
  \<open>first_name\<close> and \<open>email\<close> are only copied into responses and are left out.
\<close>

record user_row =
  role :: "string option"
  organization_id :: "string option"
  can_use_rag :: "bool option"
  can_upload_documents :: "bool option"
  can_edit_documents :: "bool option"
  can_delete_documents :: "bool option"
  daily_message_quota :: "int option"

record org_row =
  org_id :: string
  default_can_use_rag :: "bool option"
  default_can_upload_documents :: "bool option"
  default_can_edit_documents :: "bool option"
  default_can_delete_documents :: "bool option"
  default_daily_message_quota :: "int option"

text \<open>The \<open>permissions\<close> object of a response, and the \<open>defaultPermissions\<close> object.\<close>

record permissions =
  perm_can_use_rag :: bool
  perm_can_upload_documents :: bool
  perm_can_edit_documents :: bool
  perm_can_delete_documents :: bool
  perm_daily_message_quota :: int

text \<open>
  The \<open>daily_usage\<close> table of the relational store holds one row per user and
  calendar day; it is a map from \<open>(user_id, date)\<close> to \<open>prompts_count\<close>.
\<close>

type_synonym usage_table = "string \<times> string \<rightharpoonup> int"

subsection \<open>Conversation memory\<close>

datatype turn_role = User | Model

text \<open>A history entry \<open>{ role, parts: [{ text }] }\<close>.\<close>

datatype turn = Turn (turn_role: turn_role) (turn_text: string)

type_synonym conversations = "string \<rightharpoonup> turn list"

record server_state =
  conversations :: conversations
  daily_usage :: usage_table

subsection \<open>Requests and responses of POST /api/chat\<close>

text \<open>
  The request after \<open>authenticateUser\<close>: \<open>req.user.id\<close> and the four body fields. An
  absent body field is \<open>None\<close>; \<open>forceRAG\<close> is its truthiness.
\<close>

record chat_request =
  userId :: string
  message :: "string option"
  conversationId :: "string option"
  forceRAG :: bool
  chatId :: "string option"

text \<open>
  The advisory \<open>uiMessage\<close>: its \<open>type\<close> (\<open>warning\<close> or \<open>info\<close>) and its \<open>count\<close>; the
  text is a fixed sentence around the count.
\<close>

datatype ui_message = UiWarning int | UiInfo int

datatype http_response =
    MessageRequired
  | ChatLimitReached int
  | RagDisabled
  | QuotaReached int int
  | ChatOk string string bool "ui_message option"
  | ServerError

fun status :: "http_response \<Rightarrow> nat" where
  "status MessageRequired = 400"
| "status (ChatLimitReached messageCount) = 400"
| "status RagDisabled = 403"
| "status (QuotaReached limit used) = 429"
| "status (ChatOk aiResponse cid hasContext uiMessage) = 200"
| "status ServerError = 500"

text \<open>
  The \<open>error\<close> field of the JSON body, where it is a machine-readable code; the other
  error bodies carry a French sentence, given here as \<open>None\<close>.
\<close>

fun error_code :: "http_response \<Rightarrow> string option" where
  "error_code (ChatLimitReached messageCount) = Some ''chat_limit_reached''"
| "error_code other = None"

text \<open>What \<open>checkDailyQuota\<close> attaches to the request: \<open>userDbId\<close>, \<open>currentUsage\<close>, \<open>usageDate\<close>.\<close>

record usage_ctx =
  userDbId :: string
  currentUsage :: int
  usageDate :: string

subsection \<open>Vector store matches\<close>

record match_metadata =
  md_source :: "string option"
  md_text :: "string option"

datatype pinecone_match = Match (metadata: "match_metadata option")

subsection \<open>The hosted services as seen by one request\<close>

text \<open>
  What \<open>chat.sendMessage\<close> resolves to, as far as the handler depends on it. The Gemini
  client library is not part of the repository. Its chat session keeps the very array
  that \<open>startChat\<close> is given as \<open>history\<close> and, when it records an exchange, pushes the
  content it sent and the content of the reply onto that array. \<open>session_recorded\<close> is
  the text of the reply content the session recorded, or \<open>None\<close> when it recorded
  nothing; \<open>text_result\<close> is what \<open>response.text()\<close> gives: the text, or an exception.
\<close>

datatype model_reply = ModelReply (session_recorded: "string option") (text_result: "string outcome")

text \<open>
  \<open>'v\<close> is the type of embedding vectors. The generation configuration and the system
  instruction passed to \<open>startChat\<close> are constants and are not part of the model; the
  asynchronous \<open>log_gemini_usage\<close> call touches neither table modelled here.
\<close>

record 'v env =
  selectQuotaUser :: "string \<Rightarrow> user_row db_reply outcome"
  today :: string
  usageSelectFault :: fault
  countMessages :: "string \<Rightarrow> int option outcome"
  selectRagUser :: "string \<Rightarrow> user_row option outcome"
  generateEmbedding :: "string \<Rightarrow> 'v outcome"
  indexQuery :: "'v \<Rightarrow> nat \<Rightarrow> pinecone_match list outcome"
  sendMessage :: "turn list \<Rightarrow> string \<Rightarrow> model_reply outcome"
  incSelectFault :: fault
  incUpdateFault :: fault
  incInsertFault :: fault

section \<open>Document chunking (POST /api/upload-document, POST /api/upload-file)\<close>

definition MAX_CHUNK_SIZE :: nat where
  "MAX_CHUNK_SIZE = 8000"

text \<open>\<open>text.slice(i, j)\<close> for \<open>0 \<le> i \<le> j\<close>.\<close>

definition slice :: "'a list \<Rightarrow> nat \<Rightarrow> nat \<Rightarrow> 'a list" where
  "slice text i j = take (j - i) (drop i text)"

text \<open>The \<open>for\<close> loop; \<open>chunks\<close> is the array built so far.\<close>

function chunkLoop :: "'a list \<Rightarrow> nat \<Rightarrow> 'a list list \<Rightarrow> 'a list list" where
  "chunkLoop text i chunks =
     (if i < length text
      then chunkLoop text (i + MAX_CHUNK_SIZE) (chunks @ [slice text i (i + MAX_CHUNK_SIZE)])
      else chunks)"
  by pat_completeness auto
termination
  by (relation "measure (\<lambda>(text, i, chunks). length text - i)") (auto simp: MAX_CHUNK_SIZE_def)

declare chunkLoop.simps [simp del]

definition chunkText :: "'a list \<Rightarrow> 'a list list" where
  "chunkText text =
     (if length text > MAX_CHUNK_SIZE then chunkLoop text 0 [] else [text])"

section \<open>Permissions (GET /api/users/me/permissions, POST /api/organizations/join)\<close>

text \<open>
  The \<open>permissions\<close> object of GET /api/users/me/permissions, computed from the user row
  alone: \<open>can_use_rag !== false\<close>, \<open>x || false\<close> for the three document flags and
  \<open>daily_message_quota || 50\<close> (\<open>0\<close> is falsy).
\<close>

definition mePermissions :: "user_row \<Rightarrow> permissions" where
  "mePermissions userData =
     \<lparr> perm_can_use_rag = (can_use_rag userData \<noteq> Some False),
       perm_can_upload_documents = (case can_upload_documents userData of None \<Rightarrow> False | Some b \<Rightarrow> b),
       perm_can_edit_documents = (case can_edit_documents userData of None \<Rightarrow> False | Some b \<Rightarrow> b),
       perm_can_delete_documents = (case can_delete_documents userData of None \<Rightarrow> False | Some b \<Rightarrow> b),
       perm_daily_message_quota =
         (case daily_message_quota userData of None \<Rightarrow> 50 | Some q \<Rightarrow> if q = 0 then 50 else q) \<rparr>"

text \<open>\<open>userData.role || 'employee'\<close>.\<close>

definition meRole :: "user_row \<Rightarrow> string" where
  "meRole userData = (case role userData of None \<Rightarrow> ''employee'' | Some r \<Rightarrow> if r = [] then ''employee'' else r)"

datatype me_response = MeOk string permissions | MeFailed

text \<open>
  The handler: a database error, a rejected query, or a null row (reading \<open>userData.role\<close>
  then throws) give status 500.
\<close>

definition getMyPermissions :: "user_row db_reply outcome \<Rightarrow> me_response" where
  "getMyPermissions q =
     (case q of
        Throws \<Rightarrow> MeFailed
      | Returns (DbReply userData dbError) \<Rightarrow>
          (case dbError of
             Some err \<Rightarrow> MeFailed
           | None \<Rightarrow>
               (case userData of
                  None \<Rightarrow> MeFailed
                | Some u \<Rightarrow> MeOk (meRole u) (mePermissions u))))"

text \<open>The \<open>defaultPermissions\<close> object of POST /api/organizations/join: \<open>org.default_x ?? fallback\<close>.\<close>

definition joinDefaultPermissions :: "org_row \<Rightarrow> permissions" where
  "joinDefaultPermissions org =
     \<lparr> perm_can_use_rag = (case default_can_use_rag org of None \<Rightarrow> False | Some b \<Rightarrow> b),
       perm_can_upload_documents = (case default_can_upload_documents org of None \<Rightarrow> True | Some b \<Rightarrow> b),
       perm_can_edit_documents = (case default_can_edit_documents org of None \<Rightarrow> False | Some b \<Rightarrow> b),
       perm_can_delete_documents = (case default_can_delete_documents org of None \<Rightarrow> False | Some b \<Rightarrow> b),
       perm_daily_message_quota = (case default_daily_message_quota org of None \<Rightarrow> 50 | Some q \<Rightarrow> q) \<rparr>"

text \<open>The update of the user's row: \<open>{ organization_id, role: 'employee', ...defaultPermissions }\<close>.\<close>

definition joinUpdate :: "org_row \<Rightarrow> user_row \<Rightarrow> user_row" where
  "joinUpdate org u =
     (let p = joinDefaultPermissions org in
      u \<lparr> organization_id := Some (org_id org),
          role := Some ''employee'',
          can_use_rag := Some (perm_can_use_rag p),
          can_upload_documents := Some (perm_can_upload_documents p),
          can_edit_documents := Some (perm_can_edit_documents p),
          can_delete_documents := Some (perm_can_delete_documents p),
          daily_message_quota := Some (perm_daily_message_quota p) \<rparr>)"

datatype join_response = JoinOk | JoinNotFound | JoinFailed

text \<open>
  The join handler, for a request that carries an \<open>org_code\<close>, on the reply of the
  organization query and the fault of the update; it returns the response (200, 404 or
  500) and the user's row afterwards.
\<close>

definition joinOrganization :: "org_row db_reply outcome \<Rightarrow> fault \<Rightarrow> user_row \<Rightarrow> join_response \<times> user_row" where
  "joinOrganization q updateFault u =
     (case q of
        Throws \<Rightarrow> (JoinFailed, u)
      | Returns (DbReply org orgError) \<Rightarrow>
          (case orgError of
             Some err \<Rightarrow> (JoinNotFound, u)
           | None \<Rightarrow>
               (case org of
                  None \<Rightarrow> (JoinNotFound, u)
                | Some found \<Rightarrow>
                    (case updateFault of
                       NoFault \<Rightarrow> (JoinOk, joinUpdate found u)
                     | ErrorReply \<Rightarrow> (JoinFailed, u)
                     | Throw \<Rightarrow> (JoinFailed, u)))))"

section \<open>Retrieval trigger and context retrieval\<close>

text \<open>\<open>String.prototype.toLowerCase\<close> on code units below 256.\<close>

definition lowerChar :: "char \<Rightarrow> char" where
  "lowerChar c =
     (let n = (of_char c :: nat) in
      if (65 \<le> n \<and> n \<le> 90) \<or> (192 \<le> n \<and> n \<le> 222 \<and> n \<noteq> 215) then char_of (n + 32) else c)"

definition toLowerCase :: "string \<Rightarrow> string" where
  "toLowerCase s = map lowerChar s"

fun startsWith :: "string \<Rightarrow> string \<Rightarrow> bool" where
  "startsWith s [] = True"
| "startsWith [] (p # ps) = False"
| "startsWith (c # cs) (p # ps) = (c = p \<and> startsWith cs ps)"

text \<open>\<open>s.includes(sub)\<close>.\<close>

fun includes_str :: "string \<Rightarrow> string \<Rightarrow> bool" where
  "includes_str [] sub = (sub = [])"
| "includes_str (c # cs) sub = (startsWith (c # cs) sub \<or> includes_str cs sub)"

definition entityNames :: "string list" where
  "entityNames =
     [ ''p'' @ [CHR 0xE9] @ ''trin'', ''petrin'',
       ''p'' @ [CHR 0xE9] @ ''trin d'' @ [CHR 0x27] @ ''or'', ''petrin d'' @ [CHR 0x27] @ ''or'',
       ''rousseau'', ''antoine rousseau'',
       ''jean moreau'', ''moreau'',
       ''nathalie girard'', ''nathalie'',
       ''julie martin'', ''julie'',
       ''thomas durand'', ''thomas'',
       ''expertise rousseau'',
       ''bella vita'', ''tech solutions'' ]"

definition cabinetPhrases :: "string list" where
  "cabinetPhrases =
     [ ''notre cabinet'', ''notre '' @ [CHR 0xE9] @ ''quipe'', ''notre ca'', ''notre chiffre'',
       ''nos clients'', ''nos projets'', ''nos honoraires'',
       ''mon cabinet'', ''mon client'', ''mon '' @ [CHR 0xE9] @ ''quipe'' ]"

definition containsSpecificEntityNames :: "string \<Rightarrow> bool" where
  "containsSpecificEntityNames msg =
     (let lowerMessage = toLowerCase msg;
          hasEntity = list_ex (\<lambda>name. includes_str lowerMessage name) entityNames;
          hasCabinetPhrase = list_ex (\<lambda>phrase. includes_str lowerMessage phrase) cabinetPhrases
      in hasEntity \<or> hasCabinetPhrase)"

definition newline :: string where
  "newline = [CHR 0x0A]"

text \<open>\<open>Array.prototype.join\<close>.\<close>

fun joinWith :: "string \<Rightarrow> string list \<Rightarrow> string" where
  "joinWith sep [] = []"
| "joinWith sep [x] = x"
| "joinWith sep (x # y # ys) = x @ sep @ joinWith sep (y # ys)"

text \<open>\<open>match.metadata?.source || 'Unknown'\<close> and \<open>match.metadata?.text || ''\<close>.\<close>

definition matchSource :: "pinecone_match \<Rightarrow> string" where
  "matchSource m =
     (case metadata m of
        None \<Rightarrow> ''Unknown''
      | Some md \<Rightarrow> (case md_source md of None \<Rightarrow> ''Unknown'' | Some s \<Rightarrow> if s = [] then ''Unknown'' else s))"

definition matchText :: "pinecone_match \<Rightarrow> string" where
  "matchText m =
     (case metadata m of
        None \<Rightarrow> []
      | Some md \<Rightarrow> (case md_text md of None \<Rightarrow> [] | Some s \<Rightarrow> s))"

definition formatMatch :: "pinecone_match \<Rightarrow> string" where
  "formatMatch m = ''[Source: '' @ matchSource m @ '']'' @ newline @ matchText m"

text \<open>\<open>getRelevantContext(query, topK = 3)\<close>: any rejection inside is caught and gives \<open>''\<close>.\<close>

definition getRelevantContext :: "'v env \<Rightarrow> string \<Rightarrow> nat \<Rightarrow> string" where
  "getRelevantContext e query topK =
     (case generateEmbedding e query of
        Throws \<Rightarrow> []
      | Returns queryEmbedding \<Rightarrow>
          (case indexQuery e queryEmbedding topK of
             Throws \<Rightarrow> []
           | Returns matches \<Rightarrow>
               joinWith (newline @ newline @ ''---'' @ newline @ newline) (map formatMatch matches)))"

section \<open>Quota management\<close>

text \<open>
  The three requests the server sends to the \<open>daily_usage\<close> table, as the store
  answers them. The select of the single row of \<open>(user_id, date)\<close> gives its
  \<open>prompts_count\<close>, or null data when there is no row or the request fails; an update
  changes an existing row; an insert adds a row where there is none.
\<close>

definition selectUsage :: "fault \<Rightarrow> usage_table \<Rightarrow> string \<Rightarrow> string \<Rightarrow> int option outcome" where
  "selectUsage f usage uid date =
     (case f of NoFault \<Rightarrow> Returns (usage (uid, date)) | ErrorReply \<Rightarrow> Returns None | Throw \<Rightarrow> Throws)"

definition updateUsage :: "fault \<Rightarrow> usage_table \<Rightarrow> string \<Rightarrow> string \<Rightarrow> int \<Rightarrow> usage_table outcome" where
  "updateUsage f usage uid date c =
     (case f of
        NoFault \<Rightarrow> Returns (if usage (uid, date) = None then usage else usage((uid, date) \<mapsto> c))
      | ErrorReply \<Rightarrow> Returns usage
      | Throw \<Rightarrow> Throws)"

definition insertUsage :: "fault \<Rightarrow> usage_table \<Rightarrow> string \<Rightarrow> string \<Rightarrow> int \<Rightarrow> usage_table outcome" where
  "insertUsage f usage uid date c =
     (case f of
        NoFault \<Rightarrow> Returns (if usage (uid, date) = None then usage((uid, date) \<mapsto> c) else usage)
      | ErrorReply \<Rightarrow> Returns usage
      | Throw \<Rightarrow> Throws)"

text \<open>
  The middleware \<open>checkDailyQuota\<close>: it either answers 429 itself or calls \<open>next()\<close>, with
  or without the usage context attached to the request.
\<close>

datatype quota_decision = QuotaNext "usage_ctx option" | QuotaReject int int

definition checkDailyQuota :: "'v env \<Rightarrow> usage_table \<Rightarrow> string \<Rightarrow> quota_decision" where
  "checkDailyQuota e usage uid =
     (case selectQuotaUser e uid of
        Throws \<Rightarrow> QuotaNext None
      | Returns (DbReply user userError) \<Rightarrow>
          (case userError of
             Some err \<Rightarrow> QuotaNext None
           | None \<Rightarrow>
               (case user of
                  None \<Rightarrow> QuotaNext None
                | Some u \<Rightarrow>
                    if role u = Some ''admin'' then QuotaNext None
                    else
                      (case daily_message_quota u of
                         None \<Rightarrow> QuotaNext None
                       | Some limit \<Rightarrow>
                           (case selectUsage (usageSelectFault e) usage uid (today e) of
                              Throws \<Rightarrow> QuotaNext None
                            | Returns row \<Rightarrow>
                                (let currentCount = (case row of None \<Rightarrow> 0 | Some c \<Rightarrow> c) in
                                 if currentCount \<ge> limit then QuotaReject limit currentCount
                                 else QuotaNext (Some \<lparr> userDbId = uid, currentUsage = currentCount,
                                                        usageDate = today e \<rparr>)))))))"

text \<open>
  \<open>incrementDailyUsage(userDbId, date)\<close>: select, then update or insert; the \<open>catch\<close>
  block swallows a rejection, so the function has no failure value.
\<close>

definition incrementDailyUsage :: "'v env \<Rightarrow> usage_table \<Rightarrow> string \<Rightarrow> string \<Rightarrow> usage_table" where
  "incrementDailyUsage e usage uid date =
     (case selectUsage (incSelectFault e) usage uid date of
        Throws \<Rightarrow> usage
      | Returns existing \<Rightarrow>
          (case existing of
             Some prompts_count \<Rightarrow>
               (case updateUsage (incUpdateFault e) usage uid date (prompts_count + 1) of
                  Throws \<Rightarrow> usage
                | Returns usage' \<Rightarrow> usage')
           | None \<Rightarrow>
               (case insertUsage (incInsertFault e) usage uid date 1 of
                  Throws \<Rightarrow> usage
                | Returns usage' \<Rightarrow> usage')))"

section \<open>POST /api/chat\<close>

text \<open>The check of the persisted message count against the limits of \<open>CHAT_CONFIG\<close>.\<close>

datatype limit_check = LimitReached int | LimitOk "ui_message option"

text \<open>A null count compares as 0.\<close>

definition checkChatLimit :: "int option \<Rightarrow> limit_check" where
  "checkChatLimit messageCount =
     (case messageCount of
        None \<Rightarrow> LimitOk None
      | Some n \<Rightarrow>
          if n \<ge> MAX_MESSAGES_PER_CHAT then LimitReached n
          else if n \<ge> SUGGEST_NEW_CHAT_AT \<and> n < SUGGEST_NEW_CHAT_AT + 2 then LimitOk (Some (UiWarning n))
          else if n \<ge> WARN_LONG_CHAT_AT \<and> n < WARN_LONG_CHAT_AT + 2 then LimitOk (Some (UiInfo n))
          else LimitOk None)"

text \<open>\<open>if (chatId) { ... }\<close>: the count is read only for a non-empty chat id.\<close>

definition chatLimit :: "'v env \<Rightarrow> string option \<Rightarrow> limit_check outcome" where
  "chatLimit e cid =
     (case cid of
        None \<Rightarrow> Returns (LimitOk None)
      | Some c \<Rightarrow>
          if c = [] then Returns (LimitOk None)
          else (case countMessages e c of
                  Throws \<Rightarrow> Throws
                | Returns messageCount \<Rightarrow> Returns (checkChatLimit messageCount)))"

text \<open>\<open>history.slice(-n)\<close>.\<close>

definition sliceLast :: "nat \<Rightarrow> 'a list \<Rightarrow> 'a list" where
  "sliceLast n xs = drop (length xs - n) xs"

text \<open>The sliding window applied to the history read from the map.\<close>

definition slidingWindow :: "turn list \<Rightarrow> turn list" where
  "slidingWindow history =
     (if length history > MAX_HISTORY_GEMINI then sliceLast MAX_HISTORY_GEMINI history else history)"

text \<open>\<open>conversations.get(conversationId) || []\<close>, then the window.\<close>

definition loadHistory :: "conversations \<Rightarrow> string \<Rightarrow> turn list" where
  "loadHistory convs cid = slidingWindow (case convs cid of None \<Rightarrow> [] | Some h \<Rightarrow> h)"

text \<open>
  Whether the array the handler holds as \<open>history\<close> is the array stored in the map: the
  map has an entry for the conversation and the window did not replace it by a copy
  (\<open>slice\<close> makes a new array). A push onto \<open>history\<close> then changes the stored history at
  once, before \<open>conversations.set\<close>.
\<close>

definition historyIsStored :: "conversations \<Rightarrow> string \<Rightarrow> bool" where
  "historyIsStored convs cid =
     (case convs cid of None \<Rightarrow> False | Some stored \<Rightarrow> \<not> length stored > MAX_HISTORY_GEMINI)"

text \<open>
  What the chat session pushes onto the history array while \<open>sendMessage\<close> runs: the
  user entry of the prompt it sent and the model entry of the reply, or nothing.
\<close>

definition sessionPushed :: "string \<Rightarrow> model_reply \<Rightarrow> turn list" where
  "sessionPushed prompt reply =
     (case session_recorded reply of
        None \<Rightarrow> []
      | Some content \<Rightarrow> [Turn User prompt, Turn Model content])"

text \<open>
  The permission check made when retrieval is asked for or detected: \<open>False\<close> is the 403
  answer. A missing user row lets the request through.
\<close>

definition ragPermitted :: "'v env \<Rightarrow> chat_request \<Rightarrow> string \<Rightarrow> bool outcome" where
  "ragPermitted e r msg =
     (if forceRAG r \<or> containsSpecificEntityNames msg
      then (case selectRagUser e (userId r) of
              Throws \<Rightarrow> Throws
            | Returns user \<Rightarrow>
                (case user of
                   None \<Rightarrow> Returns True
                 | Some u \<Rightarrow> Returns (\<not> (role u \<noteq> Some ''admin'' \<and> can_use_rag u \<noteq> Some True))))
      else Returns True)"

text \<open>The augmented prompt.\<close>

definition buildPrompt :: "string \<Rightarrow> string \<Rightarrow> string" where
  "buildPrompt context msg =
     ''CONTEXTE DOCUMENTAIRE :'' @ newline @ context @ newline @ newline @ ''---'' @ newline @ newline
     @ ''QUESTION : '' @ msg @ newline @ newline
     @ ''Utilise le contexte ci-dessus pour r'' @ [CHR 0xE9] @ ''pondre avec pr'' @ [CHR 0xE9] @ ''cision.''"

text \<open>The body field \<open>conversationId\<close> with its default.\<close>

definition conversationKey :: "chat_request \<Rightarrow> string" where
  "conversationKey r = (case conversationId r of None \<Rightarrow> ''default'' | Some c \<Rightarrow> c)"

text \<open>Everything the handler has computed when it reaches the model call.\<close>

record prepared =
  prep_conversationId :: string
  prep_message :: string
  prep_uiMessage :: "ui_message option"
  prep_history :: "turn list"
  prep_context :: string
  prep_enhancedMessage :: string

text \<open>The handler up to the model call: an early response, or the prepared call.\<close>

definition prepareChat :: "'v env \<Rightarrow> conversations \<Rightarrow> chat_request \<Rightarrow> http_response + prepared" where
  "prepareChat e convs r =
     (case message r of
        None \<Rightarrow> Inl MessageRequired
      | Some msg \<Rightarrow>
          if msg = [] then Inl MessageRequired
          else
            (case chatLimit e (chatId r) of
               Throws \<Rightarrow> Inl ServerError
             | Returns (LimitReached n) \<Rightarrow> Inl (ChatLimitReached n)
             | Returns (LimitOk uiMessage) \<Rightarrow>
                 (let cid = conversationKey r;
                      history = loadHistory convs cid
                  in case ragPermitted e r msg of
                       Throws \<Rightarrow> Inl ServerError
                     | Returns permitted \<Rightarrow>
                         if \<not> permitted then Inl RagDisabled
                         else
                           (let needsContext = (if forceRAG r then True else containsSpecificEntityNames msg);
                                context = (if needsContext then getRelevantContext e msg 3 else []);
                                enhancedMessage = (if context \<noteq> [] then buildPrompt context msg else msg)
                            in Inr \<lparr> prep_conversationId = cid, prep_message = msg,
                                     prep_uiMessage = uiMessage, prep_history = history,
                                     prep_context = context, prep_enhancedMessage = enhancedMessage \<rparr>))))"

text \<open>
  What one request does: the response, the state afterwards, the arguments of the model
  call (the history as it is when \<open>startChat\<close> receives it, and the prompt) if the model
  was invoked, the arguments of \<open>incrementDailyUsage\<close> if it was invoked, and the entries
  that the request appended to the stored history of its conversation, in order. The
  handler does not await \<open>incrementDailyUsage\<close>; the state afterwards is the state once
  that call has settled.
\<close>

record chat_outcome =
  response :: http_response
  state_after :: server_state
  modelCall :: "(turn list \<times> string) option"
  incrementCall :: "(string \<times> string) option"
  appended :: "turn list"

text \<open>\<open>if (req.userDbId && req.usageDate)\<close>.\<close>

definition usageArgs :: "usage_ctx option \<Rightarrow> (string \<times> string) option" where
  "usageArgs ctx =
     (case ctx of
        None \<Rightarrow> None
      | Some c \<Rightarrow> if userDbId c \<noteq> [] \<and> usageDate c \<noteq> [] then Some (userDbId c, usageDate c) else None)"

text \<open>
  The route handler, given what \<open>checkDailyQuota\<close> attached to the request. If
  \<open>sendMessage\<close> rejects, nothing was pushed. If it resolves, the session has pushed its
  entries onto \<open>history\<close>; then either \<open>response.text()\<close> throws, and the pushed entries
  stay in the store exactly when \<open>history\<close> is the stored array, or the handler pushes
  the user turn of the original message and the model turn of the answer and stores
  \<open>history\<close> under the conversation id.
\<close>

definition chatHandler :: "'v env \<Rightarrow> server_state \<Rightarrow> usage_ctx option \<Rightarrow> chat_request \<Rightarrow> chat_outcome" where
  "chatHandler e s ctx r =
     (case prepareChat e (conversations s) r of
        Inl early \<Rightarrow>
          \<lparr> response = early, state_after = s, modelCall = None, incrementCall = None, appended = [] \<rparr>
      | Inr p \<Rightarrow>
          (case sendMessage e (prep_history p) (prep_enhancedMessage p) of
             Throws \<Rightarrow>
               \<lparr> response = ServerError, state_after = s,
                 modelCall = Some (prep_history p, prep_enhancedMessage p), incrementCall = None,
                 appended = [] \<rparr>
           | Returns reply \<Rightarrow>
               (let cid = prep_conversationId p;
                    pushed = sessionPushed (prep_enhancedMessage p) reply;
                    history = prep_history p @ pushed
                in case text_result reply of
                     Throws \<Rightarrow>
                       (if historyIsStored (conversations s) cid
                        then \<lparr> response = ServerError,
                               state_after = s \<lparr> conversations := (conversations s)(cid \<mapsto> history) \<rparr>,
                               modelCall = Some (prep_history p, prep_enhancedMessage p),
                               incrementCall = None, appended = pushed \<rparr>
                        else \<lparr> response = ServerError, state_after = s,
                               modelCall = Some (prep_history p, prep_enhancedMessage p),
                               incrementCall = None, appended = [] \<rparr>)
                   | Returns aiResponse \<Rightarrow>
                       (let turns = [Turn User (prep_message p), Turn Model aiResponse];
                            convs' = (conversations s)(cid \<mapsto> history @ turns);
                            inc = usageArgs ctx;
                            usage' = (case inc of
                                        None \<Rightarrow> daily_usage s
                                      | Some (uid, date) \<Rightarrow> incrementDailyUsage e (daily_usage s) uid date)
                        in \<lparr> response = ChatOk aiResponse cid (prep_context p \<noteq> []) (prep_uiMessage p),
                             state_after = \<lparr> conversations = convs', daily_usage = usage' \<rparr>,
                             modelCall = Some (prep_history p, prep_enhancedMessage p),
                             incrementCall = inc,
                             appended = pushed @ turns \<rparr>))))"

text \<open>The route: \<open>checkDailyQuota\<close>, then the handler.\<close>

definition chatEndpoint :: "'v env \<Rightarrow> server_state \<Rightarrow> chat_request \<Rightarrow> chat_outcome" where
  "chatEndpoint e s r =
     (case checkDailyQuota e (daily_usage s) (userId r) of
        QuotaReject limit used \<Rightarrow>
          \<lparr> response = QuotaReached limit used, state_after = s, modelCall = None, incrementCall = None,
            appended = [] \<rparr>
      | QuotaNext ctx \<Rightarrow> chatHandler e s ctx r)"

text \<open>A run of requests against the route, each starting from the state the last one left.\<close>

fun runRequests :: "'v env \<Rightarrow> server_state \<Rightarrow> chat_request list \<Rightarrow> server_state" where
  "runRequests e s [] = s"
| "runRequests e s (r # rs) = runRequests e (state_after (chatEndpoint e s r)) rs"

text \<open>What each request of a run appended to the stored history, in the order of the run.\<close>

fun appendsOf :: "'v env \<Rightarrow> server_state \<Rightarrow> chat_request list \<Rightarrow> turn list list" where
  "appendsOf e s [] = []"
| "appendsOf e s (r # rs) = appended (chatEndpoint e s r) # appendsOf e (state_after (chatEndpoint e s r)) rs"

text \<open>
  The stored history of a conversation after entries were appended to it by one
  request: the window of what was stored, followed by the entries.
\<close>

definition storeAppended :: "conversations \<Rightarrow> string \<Rightarrow> turn list \<Rightarrow> conversations" where
  "storeAppended convs cid entries =
     (if entries = [] then convs else convs(cid \<mapsto> loadHistory convs cid @ entries))"

fun runAppends :: "conversations \<Rightarrow> string \<Rightarrow> turn list list \<Rightarrow> conversations" where
  "runAppends convs cid [] = convs"
| "runAppends convs cid (entries # rest) = runAppends (storeAppended convs cid entries) cid rest"

text \<open>
  The same environment with other faults on the three requests that
  \<open>incrementDailyUsage\<close> sends.
\<close>

definition withIncFaults :: "'v env \<Rightarrow> fault \<Rightarrow> fault \<Rightarrow> fault \<Rightarrow> 'v env" where
  "withIncFaults e f1 f2 f3 = e \<lparr> incSelectFault := f1, incUpdateFault := f2, incInsertFault := f3 \<rparr>"

text \<open>
  The value the specification gives an employee without an override: the organization's
  default, and the fallback when the organization has none.
\<close>

definition orgDefaultOr :: "'a option \<Rightarrow> 'a \<Rightarrow> 'a" where
  "orgDefaultOr d fallback = (case d of None \<Rightarrow> fallback | Some v \<Rightarrow> v)"

section \<open>Example values\<close>

definition demoUser :: user_row where
  "demoUser = \<lparr> role = Some ''employee'', organization_id = Some ''org1'', can_use_rag = Some True,
       can_upload_documents = Some True, can_edit_documents = Some False,
       can_delete_documents = Some False, daily_message_quota = Some 2 \<rparr>"

definition adminUser :: user_row where
  "adminUser = demoUser \<lparr> role := Some ''admin'', daily_message_quota := Some 999999 \<rparr>"

text \<open>
  An environment in which every query succeeds, the embedding call rejects and the model
  answers \<open>ok\<close>, the chat session recording each exchange.
\<close>

definition demoEnv :: "unit env" where
  "demoEnv = \<lparr> selectQuotaUser = (\<lambda>uid. Returns (DbReply (Some demoUser) None)),
       today = ''2025-01-15'',
       usageSelectFault = NoFault,
       countMessages = (\<lambda>c. Returns (Some 3)),
       selectRagUser = (\<lambda>uid. Returns (Some demoUser)),
       generateEmbedding = (\<lambda>q. Throws),
       indexQuery = (\<lambda>v k. Returns []),
       sendMessage = (\<lambda>h p. Returns (ModelReply (Some ''ok'') (Returns ''ok''))),
       incSelectFault = NoFault, incUpdateFault = NoFault, incInsertFault = NoFault \<rparr>"

definition adminEnv :: "unit env" where
  "adminEnv = demoEnv \<lparr> selectQuotaUser := (\<lambda>uid. Returns (DbReply (Some adminUser) None)),
                         selectRagUser := (\<lambda>uid. Returns (Some adminUser)) \<rparr>"

definition demoRequest :: chat_request where
  "demoRequest = \<lparr> userId = ''u1'', message = Some ''hello'', conversationId = Some ''c1'',
       forceRAG = False, chatId = None \<rparr>"

definition demoState :: server_state where
  "demoState = \<lparr> conversations = Map.empty, daily_usage = Map.empty \<rparr>"

text \<open>Twelve requests on conversation \<open>c1\<close>, with the messages \<open>a\<close> to \<open>l\<close>.\<close>

definition demoRequests :: "chat_request list" where
  "demoRequests = map (\<lambda>c. demoRequest \<lparr> message := Some [c] \<rparr>) ''abcdefghijkl''"

text \<open>A state in which user \<open>u1\<close> has used \<open>n\<close> prompts on 2025-01-15.\<close>

definition usedState :: "int \<Rightarrow> server_state" where
  "usedState n = \<lparr> conversations = Map.empty, daily_usage = [(''u1'', ''2025-01-15'') \<mapsto> n] \<rparr>"

text \<open>An environment in which the users query of the quota check finds no row.\<close>

definition lostUserEnv :: "unit env" where
  "lostUserEnv = demoEnv \<lparr> selectQuotaUser := (\<lambda>uid. Returns (DbReply None (Some ''PGRST116''))) \<rparr>"

text \<open>
  The administrator's environment with a chat session that records nothing on the array.
\<close>

definition plainSessionEnv :: "unit env" where
  "plainSessionEnv = adminEnv \<lparr> sendMessage := (\<lambda>h p. Returns (ModelReply None (Returns ''ok''))) \<rparr>"

text \<open>An environment in which the model call rejects.\<close>

definition silentModelEnv :: "unit env" where
  "silentModelEnv = demoEnv \<lparr> sendMessage := (\<lambda>h p. Throws) \<rparr>"

text \<open>A chat that already holds 200 messages.\<close>

definition fullChatEnv :: "unit env" where
  "fullChatEnv = demoEnv \<lparr> countMessages := (\<lambda>c. Returns (Some 200)) \<rparr>"

definition fullChatRequest :: chat_request where
  "fullChatRequest = demoRequest \<lparr> chatId := Some ''chat-7'' \<rparr>"

text \<open>A message that names a known entity, and an environment in which retrieval finds one match.\<close>

definition ragRequest :: chat_request where
  "ragRequest = demoRequest \<lparr> message := Some ''Parle-moi de Rousseau'' \<rparr>"

definition ragEnv :: "unit env" where
  "ragEnv = demoEnv \<lparr> generateEmbedding := (\<lambda>q. Returns ()),
       indexQuery := (\<lambda>v k. Returns [Match (Some \<lparr> md_source = Some ''bilan.pdf'', md_text = Some ''CA 2024'' \<rparr>)]) \<rparr>"

text \<open>An employee row without any value of its own, and an organization with some defaults.\<close>

definition bareEmployee :: user_row where
  "bareEmployee = \<lparr> role = Some ''employee'', organization_id = Some ''org1'', can_use_rag = None,
       can_upload_documents = None, can_edit_documents = None, can_delete_documents = None,
       daily_message_quota = None \<rparr>"

definition demoOrg :: org_row where
  "demoOrg = \<lparr> org_id = ''org1'', default_can_use_rag = Some False,
       default_can_upload_documents = Some True, default_can_edit_documents = None,
       default_can_delete_documents = None, default_daily_message_quota = Some 30 \<rparr>"

section \<open>Conversation memory: the sliding window\<close>

lemma sliceLast_length: "length (sliceLast n xs) = min n (length xs)"
  by (simp add: sliceLast_def)

lemma sliceLast_short: "length xs \<le> n \<Longrightarrow> sliceLast n xs = xs"
  by (simp add: sliceLast_def)

lemma sliceLast_sliceLast: "n \<le> m \<Longrightarrow> sliceLast n (sliceLast m xs) = sliceLast n xs"
proof -
  assume "n \<le> m"
  then have "length xs - m + (length xs - (length xs - m) - n) = length xs - n" by arith
  then show ?thesis by (simp add: sliceLast_def add.commute)
qed

lemma sliceLast_append: "n \<le> length ys \<Longrightarrow> sliceLast n (xs @ ys) = sliceLast n ys"
  by (simp add: sliceLast_def)

lemma sliceLast_push: "sliceLast n xs @ ys = sliceLast (n + length ys) (xs @ ys)"
  by (simp add: sliceLast_def)

lemma sliceLast_window_append: "sliceLast n (sliceLast n xs @ ys) = sliceLast n (xs @ ys)"
proof (cases "length xs \<le> n")
  case True
  then show ?thesis by (simp add: sliceLast_short)
next
  case False
  then have "length (drop (length xs - n) xs @ ys) - n = length ys" by simp
  moreover have "length (xs @ ys) - n = (length xs - n) + length ys" using False by simp
  ultimately show ?thesis
    using False by (simp add: sliceLast_def add.commute)
qed

lemma slidingWindow_eq: "slidingWindow h = sliceLast MAX_HISTORY_GEMINI h"
  by (simp add: slidingWindow_def sliceLast_def)

lemma loadHistory_window:
  "loadHistory convs cid = sliceLast MAX_HISTORY_GEMINI (case convs cid of None \<Rightarrow> [] | Some stored \<Rightarrow> stored)"
  by (simp add: loadHistory_def slidingWindow_eq)

lemma storeAppended_stored:
  "(case storeAppended convs cid entries cid of None \<Rightarrow> [] | Some stored \<Rightarrow> stored)
   = (if entries = [] then (case convs cid of None \<Rightarrow> [] | Some stored \<Rightarrow> stored)
      else sliceLast MAX_HISTORY_GEMINI (case convs cid of None \<Rightarrow> [] | Some stored \<Rightarrow> stored) @ entries)"
  by (simp add: storeAppended_def loadHistory_window)

lemma runAppends_empty: "concat qs = [] \<Longrightarrow> runAppends convs cid qs = convs"
  by (induction qs arbitrary: convs) (simp_all add: storeAppended_def)

lemma runAppends_window:
  "loadHistory (runAppends convs cid qs) cid
   = sliceLast MAX_HISTORY_GEMINI ((case convs cid of None \<Rightarrow> [] | Some stored \<Rightarrow> stored) @ concat qs)"
proof (induction qs arbitrary: convs)
  case Nil
  show ?case by (simp add: loadHistory_window)
next
  case (Cons q qs)
  let ?h = "case convs cid of None \<Rightarrow> [] | Some stored \<Rightarrow> stored"
  show ?case
  proof (cases "q = []")
    case True
    then show ?thesis using Cons.IH[of convs] by (simp add: storeAppended_def)
  next
    case False
    have "loadHistory (runAppends (storeAppended convs cid q) cid qs) cid
          = sliceLast MAX_HISTORY_GEMINI ((sliceLast MAX_HISTORY_GEMINI ?h @ q) @ concat qs)"
      using False by (simp add: Cons.IH storeAppended_stored)
    also have "\<dots> = sliceLast MAX_HISTORY_GEMINI (?h @ q @ concat qs)"
      using sliceLast_window_append[of MAX_HISTORY_GEMINI ?h "q @ concat qs"] by simp
    finally show ?thesis by simp
  qed
qed

lemma runAppends_stored:
  assumes "list_all (\<lambda>q. q = [] \<or> length q = c) qs" and "concat qs \<noteq> []"
  shows "runAppends convs cid qs cid
         = Some (sliceLast (MAX_HISTORY_GEMINI + c)
                  ((case convs cid of None \<Rightarrow> [] | Some stored \<Rightarrow> stored) @ concat qs))"
  using assms
proof (induction qs arbitrary: convs)
  case Nil
  then show ?case by simp
next
  case (Cons q qs)
  let ?h = "case convs cid of None \<Rightarrow> [] | Some stored \<Rightarrow> stored"
  show ?case
  proof (cases "q = []")
    case True
    then show ?thesis using Cons.IH[of convs] Cons.prems by (simp add: storeAppended_def)
  next
    case False
    then have c: "length q = c" using Cons.prems(1) by simp
    let ?convs' = "storeAppended convs cid q"
    have stored: "?convs' cid = Some (sliceLast MAX_HISTORY_GEMINI ?h @ q)"
      using False by (simp add: storeAppended_def loadHistory_window)
    have push: "sliceLast MAX_HISTORY_GEMINI ?h @ q = sliceLast (MAX_HISTORY_GEMINI + c) (?h @ q)"
      using sliceLast_push[of MAX_HISTORY_GEMINI ?h q] c by simp
    show ?thesis
    proof (cases "concat qs = []")
      case True
      have "runAppends ?convs' cid qs = ?convs'" using True by (rule runAppends_empty)
      then show ?thesis using stored push True by (simp del: concat_eq_Nil_conv)
    next
      case ne: False
      have "runAppends ?convs' cid qs cid
            = Some (sliceLast (MAX_HISTORY_GEMINI + c)
                     (sliceLast (MAX_HISTORY_GEMINI + c) (?h @ q) @ concat qs))"
        using Cons.IH[of ?convs'] Cons.prems(1) ne stored push by simp
      also have "\<dots> = Some (sliceLast (MAX_HISTORY_GEMINI + c) ((?h @ q) @ concat qs))"
        by (simp only: sliceLast_window_append)
      finally show ?thesis by simp
    qed
  qed
qed

lemma prepareChat_Inr:
  assumes "prepareChat e convs r = Inr p"
  shows "prep_conversationId p = conversationKey r"
    and "prep_history p = loadHistory convs (conversationKey r)"
    and "message r = Some (prep_message p)"
    and "prep_message p \<noteq> []"
    and "prep_enhancedMessage p
         = (if prep_context p \<noteq> [] then buildPrompt (prep_context p) (prep_message p) else prep_message p)"
    and "prep_context p
         = (if forceRAG r \<or> containsSpecificEntityNames (prep_message p)
            then getRelevantContext e (prep_message p) 3 else [])"
  using assms
  by (auto simp: prepareChat_def Let_def
           split: option.splits if_splits outcome.splits limit_check.splits)

lemma chatHandler_modelCall:
  "modelCall (chatHandler e s ctx r)
   = (case prepareChat e (conversations s) r of
        Inl early \<Rightarrow> None
      | Inr p \<Rightarrow> Some (prep_history p, prep_enhancedMessage p))"
  by (simp add: chatHandler_def Let_def split: sum.splits outcome.splits)

lemma chatEndpoint_modelCall:
  assumes "modelCall (chatEndpoint e s r) = Some (h, prompt)"
  shows "\<exists>p. prepareChat e (conversations s) r = Inr p \<and> h = prep_history p \<and> prompt = prep_enhancedMessage p"
  using assms
  by (auto simp: chatEndpoint_def chatHandler_modelCall split: quota_decision.splits sum.splits)

lemma prepareChat_Inl:
  assumes "prepareChat e convs r = Inl early"
  shows "status early \<noteq> 200"
  using assms
  by (auto simp: prepareChat_def Let_def
           split: option.splits if_splits outcome.splits limit_check.splits)

lemma chatHandler_not_ok:
  assumes "status (response (chatHandler e s ctx r)) \<noteq> 200"
  shows "daily_usage (state_after (chatHandler e s ctx r)) = daily_usage s"
    and "incrementCall (chatHandler e s ctx r) = None"
  using assms
  by (simp_all add: chatHandler_def Let_def split: sum.splits outcome.splits)

lemma chatEndpoint_not_ok:
  assumes "status (response (chatEndpoint e s r)) \<noteq> 200"
  shows "daily_usage (state_after (chatEndpoint e s r)) = daily_usage s"
    and "incrementCall (chatEndpoint e s r) = None"
  using assms chatHandler_not_ok[of e s _ r]
  by (auto simp: chatEndpoint_def split: quota_decision.splits)

lemma stored_window_unchanged:
  assumes "historyIsStored convs cid"
  shows "convs(cid \<mapsto> loadHistory convs cid) = convs"
  using assms
  by (auto simp: historyIsStored_def loadHistory_def slidingWindow_def fun_eq_iff split: option.splits)

lemma chatHandler_appends:
  assumes "conversationKey r = cid"
  shows "conversations (state_after (chatHandler e s ctx r))
         = storeAppended (conversations s) cid (appended (chatHandler e s ctx r))"
proof (cases "prepareChat e (conversations s) r")
  case (Inl early)
  then show ?thesis by (simp add: chatHandler_def storeAppended_def)
next
  case (Inr p)
  note pr = prepareChat_Inr(1,2)[OF Inr]
  show ?thesis
  proof (cases "sendMessage e (prep_history p) (prep_enhancedMessage p)")
    case Throws
    then show ?thesis using Inr by (simp add: chatHandler_def storeAppended_def)
  next
    case (Returns reply)
    show ?thesis
    proof (cases "text_result reply")
      case Throws
      then show ?thesis
        using Inr Returns pr assms stored_window_unchanged[of "conversations s" cid]
        by (simp add: chatHandler_def storeAppended_def Let_def)
    next
      case ok: (Returns aiResponse)
      then show ?thesis
        using Inr Returns pr assms
        by (simp add: chatHandler_def storeAppended_def Let_def)
    qed
  qed
qed

lemma chatEndpoint_appends:
  assumes "conversationKey r = cid"
  shows "conversations (state_after (chatEndpoint e s r))
         = storeAppended (conversations s) cid (appended (chatEndpoint e s r))"
  using chatHandler_appends[OF assms, of e s _]
  by (cases "checkDailyQuota e (daily_usage s) (userId r)")
     (simp_all add: chatEndpoint_def storeAppended_def)

lemma runRequests_runAppends:
  assumes "\<forall>r \<in> set rs. conversationKey r = cid"
  shows "conversations (runRequests e s rs) = runAppends (conversations s) cid (appendsOf e s rs)"
  using assms
proof (induction rs arbitrary: s)
  case Nil
  then show ?case by simp
next
  case (Cons r rs)
  then show ?case
    by (simp add: chatEndpoint_appends[of r cid e s])
qed

text \<open>
  C1 (as stated, refuted): the claim says that after more than 20 appended turns the
  stored history has length exactly 20. Twelve requests of an administrator on a fresh
  conversation, with the questions \<open>a\<close> to \<open>l\<close>, are each answered with 200; each
  appends four entries to the array (the chat session's two and the handler's two), 48
  in all. The history stored in the map then has 24 entries, not 20, and starts with
  the question \<open>g\<close>.
\<close>

theorem stored_history_exceeds_window:
  "length (concat (appendsOf adminEnv demoState demoRequests)) = 48
   \<and> map_option length (conversations (runRequests adminEnv demoState demoRequests) ''c1'') = Some 24
   \<and> map_option (take 4) (conversations (runRequests adminEnv demoState demoRequests) ''c1'')
       = Some [Turn User ''g'', Turn Model ''ok'', Turn User ''g'', Turn Model ''ok'']
   \<and> (24 :: nat) \<noteq> MAX_HISTORY_GEMINI"
  by code_simp

text \<open>
  C1 (amended): the history is cut to the window only when it is read, before the model
  call; nothing cuts it after the append. For every conversation id and every starting
  state, once the entries appended by a run of requests on that conversation exceed 20,
  the history that the next request reads from the map and passes to the model has
  length exactly 20 and is the last 20 appended entries in their order. The stored
  history is longer than the window: when every request that appended anything appended
  \<open>c\<close> entries and at least \<open>20 + c\<close> entries were appended, it has length exactly
  \<open>20 + c\<close> and is the last \<open>20 + c\<close> appended entries in their order. Here \<open>c\<close> is 2
  for the handler's user and model turns alone, and 4 when the chat session has pushed
  its prompt and reply entries onto the same array before them.
\<close>

theorem stored_history_cut_on_read:
  assumes "\<forall>r \<in> set rs. conversationKey r = cid"
      and "length (concat (appendsOf e s rs)) > MAX_HISTORY_GEMINI"
  shows "loadHistory (conversations (runRequests e s rs)) cid
           = sliceLast MAX_HISTORY_GEMINI (concat (appendsOf e s rs))
       \<and> length (loadHistory (conversations (runRequests e s rs)) cid) = MAX_HISTORY_GEMINI
       \<and> (list_all (\<lambda>entries. entries = [] \<or> length entries = c) (appendsOf e s rs)
            \<and> MAX_HISTORY_GEMINI + c \<le> length (concat (appendsOf e s rs)) \<longrightarrow>
            conversations (runRequests e s rs) cid
              = Some (sliceLast (MAX_HISTORY_GEMINI + c) (concat (appendsOf e s rs)))
          \<and> length (sliceLast (MAX_HISTORY_GEMINI + c) (concat (appendsOf e s rs))) = MAX_HISTORY_GEMINI + c)"
proof -
  let ?A = "concat (appendsOf e s rs)"
  let ?h = "case conversations s cid of None \<Rightarrow> [] | Some stored \<Rightarrow> stored"
  have run: "conversations (runRequests e s rs) = runAppends (conversations s) cid (appendsOf e s rs)"
    using assms(1) by (rule runRequests_runAppends)
  have win: "loadHistory (conversations (runRequests e s rs)) cid = sliceLast MAX_HISTORY_GEMINI ?A"
    using assms(2) by (simp add: run runAppends_window sliceLast_append)
  have len: "length (sliceLast MAX_HISTORY_GEMINI ?A) = MAX_HISTORY_GEMINI"
    using assms(2) by (simp add: sliceLast_length)
  have same: "conversations (runRequests e s rs) cid = Some (sliceLast (MAX_HISTORY_GEMINI + c) ?A)
          \<and> length (sliceLast (MAX_HISTORY_GEMINI + c) ?A) = MAX_HISTORY_GEMINI + c"
    if all: "list_all (\<lambda>entries. entries = [] \<or> length entries = c) (appendsOf e s rs)"
      and big: "MAX_HISTORY_GEMINI + c \<le> length ?A"
  proof -
    have ne: "?A \<noteq> []" using assms(2) by (metis list.size(3) not_less_zero)
    have "conversations (runRequests e s rs) cid = Some (sliceLast (MAX_HISTORY_GEMINI + c) (?h @ ?A))"
      unfolding run using all ne by (rule runAppends_stored)
    then show ?thesis using big by (simp add: sliceLast_append sliceLast_length)
  qed
  from win len same show ?thesis by simp
qed

theorem stored_history_cut_on_read_witness:
  "list_all (\<lambda>r. conversationKey r = ''c1'') demoRequests
   \<and> length (concat (appendsOf adminEnv demoState demoRequests)) > MAX_HISTORY_GEMINI
   \<and> list_all (\<lambda>entries. length entries = 4) (appendsOf adminEnv demoState demoRequests)
   \<and> MAX_HISTORY_GEMINI + 4 \<le> length (concat (appendsOf adminEnv demoState demoRequests))
   \<and> loadHistory (conversations (runRequests adminEnv demoState demoRequests)) ''c1''
       = sliceLast MAX_HISTORY_GEMINI (concat (appendsOf adminEnv demoState demoRequests))
   \<and> conversations (runRequests adminEnv demoState demoRequests) ''c1''
       = Some (sliceLast (MAX_HISTORY_GEMINI + 4) (concat (appendsOf adminEnv demoState demoRequests)))
   \<and> take 4 (sliceLast MAX_HISTORY_GEMINI (concat (appendsOf adminEnv demoState demoRequests)))
       = [Turn User ''h'', Turn Model ''ok'', Turn User ''h'', Turn Model ''ok'']
   \<and> take 4 (sliceLast (MAX_HISTORY_GEMINI + 4) (concat (appendsOf adminEnv demoState demoRequests)))
       = [Turn User ''g'', Turn Model ''ok'', Turn User ''g'', Turn Model ''ok'']
   \<and> list_all (\<lambda>entries. length entries = 2) (appendsOf plainSessionEnv demoState demoRequests)
   \<and> MAX_HISTORY_GEMINI + 2 \<le> length (concat (appendsOf plainSessionEnv demoState demoRequests))
   \<and> conversations (runRequests plainSessionEnv demoState demoRequests) ''c1''
       = Some (sliceLast (MAX_HISTORY_GEMINI + 2) (concat (appendsOf plainSessionEnv demoState demoRequests)))
   \<and> take 2 (sliceLast (MAX_HISTORY_GEMINI + 2) (concat (appendsOf plainSessionEnv demoState demoRequests)))
       = [Turn User ''b'', Turn Model ''ok'']"
proof -
  have h1: "\<forall>r \<in> set demoRequests. conversationKey r = ''c1''"
    by (simp add: demoRequests_def demoRequest_def conversationKey_def)
  have h1': "list_all (\<lambda>r. conversationKey r = ''c1'') demoRequests"
    using h1 by (simp add: list_all_iff)
  have h2: "length (concat (appendsOf adminEnv demoState demoRequests)) > MAX_HISTORY_GEMINI"
    by code_simp
  have h3: "list_all (\<lambda>entries. length entries = 4) (appendsOf adminEnv demoState demoRequests)"
    by code_simp
  then have h3': "list_all (\<lambda>entries. entries = [] \<or> length entries = 4)
                    (appendsOf adminEnv demoState demoRequests)"
    by (simp add: list_all_iff)
  have h4: "MAX_HISTORY_GEMINI + 4 \<le> length (concat (appendsOf adminEnv demoState demoRequests))"
    by code_simp
  have v1: "take 4 (sliceLast MAX_HISTORY_GEMINI (concat (appendsOf adminEnv demoState demoRequests)))
       = [Turn User ''h'', Turn Model ''ok'', Turn User ''h'', Turn Model ''ok'']"
    by code_simp
  have v2: "take 4 (sliceLast (MAX_HISTORY_GEMINI + 4) (concat (appendsOf adminEnv demoState demoRequests)))
       = [Turn User ''g'', Turn Model ''ok'', Turn User ''g'', Turn Model ''ok'']"
    by code_simp
  have p2: "length (concat (appendsOf plainSessionEnv demoState demoRequests)) > MAX_HISTORY_GEMINI"
    by code_simp
  have p3: "list_all (\<lambda>entries. length entries = 2) (appendsOf plainSessionEnv demoState demoRequests)"
    by code_simp
  then have p3': "list_all (\<lambda>entries. entries = [] \<or> length entries = 2)
                    (appendsOf plainSessionEnv demoState demoRequests)"
    by (simp add: list_all_iff)
  have p4: "MAX_HISTORY_GEMINI + 2 \<le> length (concat (appendsOf plainSessionEnv demoState demoRequests))"
    by code_simp
  have v3: "take 2 (sliceLast (MAX_HISTORY_GEMINI + 2) (concat (appendsOf plainSessionEnv demoState demoRequests)))
       = [Turn User ''b'', Turn Model ''ok'']"
    by code_simp
  from stored_history_cut_on_read[OF h1 h2, of 4] stored_history_cut_on_read[OF h1 p2, of 2]
    h1' h2 h3 h3' h4 v1 v2 p3 p3' p4 v3
  show ?thesis by blast
qed

text \<open>
  C2: whenever the route invokes the model, the history it passes has at most 20 turns:
  it is the stored history of the conversation cut to its last 20 turns, whatever the
  number of turns in the store.
\<close>

theorem model_sees_window:
  assumes "modelCall (chatEndpoint e s r) = Some (h, prompt)"
  shows "length h \<le> MAX_HISTORY_GEMINI
       \<and> h = sliceLast MAX_HISTORY_GEMINI
               (case conversations s (conversationKey r) of None \<Rightarrow> [] | Some stored \<Rightarrow> stored)"
proof -
  obtain p where p: "prepareChat e (conversations s) r = Inr p" "h = prep_history p"
    using chatEndpoint_modelCall[OF assms] by blast
  have "h = loadHistory (conversations s) (conversationKey r)"
    using prepareChat_Inr(2)[OF p(1)] p(2) by simp
  then show ?thesis
    by (simp add: loadHistory_window sliceLast_length)
qed

theorem model_sees_window_witness:
  "modelCall (chatEndpoint adminEnv (runRequests adminEnv demoState demoRequests) demoRequest)
     = Some (sliceLast 20 (concat (appendsOf adminEnv demoState demoRequests)), ''hello'')
   \<and> length (sliceLast 20 (concat (appendsOf adminEnv demoState demoRequests))) \<le> MAX_HISTORY_GEMINI
   \<and> map_option length (conversations (runRequests adminEnv demoState demoRequests) (conversationKey demoRequest))
       = Some 24"
proof -
  have h: "modelCall (chatEndpoint adminEnv (runRequests adminEnv demoState demoRequests) demoRequest)
           = Some (sliceLast 20 (concat (appendsOf adminEnv demoState demoRequests)), ''hello'')"
    by code_simp
  have n: "map_option length (conversations (runRequests adminEnv demoState demoRequests) (conversationKey demoRequest))
       = Some 24"
    by code_simp
  from model_sees_window[OF h]
  have "length (sliceLast 20 (concat (appendsOf adminEnv demoState demoRequests))) \<le> MAX_HISTORY_GEMINI"
    by (rule conjunct1)
  with h n show ?thesis by blast
qed

section \<open>Permission resolution\<close>

text \<open>
  C3 (as stated, refuted): the claim says that an employee without an explicit override
  gets the organization's default for each capability. The permissions endpoint reads
  the user row only: for an employee whose columns are all null, in an organization
  whose defaults are \<open>can_use_rag = false\<close>, \<open>can_upload_documents = true\<close> and a quota
  of 30, it answers \<open>can_use_rag = true\<close>, \<open>can_upload_documents = false\<close> and a quota
  of 50.
\<close>

theorem permissions_ignore_org_default:
  "role bareEmployee = Some ''employee''
   \<and> can_use_rag bareEmployee = None \<and> can_upload_documents bareEmployee = None
   \<and> daily_message_quota bareEmployee = None
   \<and> default_can_use_rag demoOrg = Some False
   \<and> default_can_upload_documents demoOrg = Some True
   \<and> default_daily_message_quota demoOrg = Some 30
   \<and> getMyPermissions (Returns (DbReply (Some bareEmployee) None))
       = MeOk ''employee'' \<lparr> perm_can_use_rag = True, perm_can_upload_documents = False,
                              perm_can_edit_documents = False, perm_can_delete_documents = False,
                              perm_daily_message_quota = 50 \<rparr>"
  by code_simp

text \<open>
  C3 (amended): the organization's defaults are copied into the user's row when the
  user joins. After a successful join the user has role employee, and each stored
  capability and the stored daily quota is the organization's default, or the fallback
  (false, true, false, false, 50) when the organization has none; the permissions
  endpoint then answers, from the row alone, a concrete value for every capability: the
  four flags as stored, and the quota as stored when the organization's default is not 0.
\<close>

theorem join_copies_org_defaults:
  assumes "joinOrganization (Returns (DbReply (Some org) None)) NoFault u = (resp, u')"
  shows "resp = JoinOk \<and> role u' = Some ''employee''
       \<and> can_use_rag u' = Some (orgDefaultOr (default_can_use_rag org) False)
       \<and> can_upload_documents u' = Some (orgDefaultOr (default_can_upload_documents org) True)
       \<and> can_edit_documents u' = Some (orgDefaultOr (default_can_edit_documents org) False)
       \<and> can_delete_documents u' = Some (orgDefaultOr (default_can_delete_documents org) False)
       \<and> daily_message_quota u' = Some (orgDefaultOr (default_daily_message_quota org) 50)
       \<and> (\<exists>p. getMyPermissions (Returns (DbReply (Some u') None)) = MeOk ''employee'' p
              \<and> perm_can_use_rag p = orgDefaultOr (default_can_use_rag org) False
              \<and> perm_can_upload_documents p = orgDefaultOr (default_can_upload_documents org) True
              \<and> perm_can_edit_documents p = orgDefaultOr (default_can_edit_documents org) False
              \<and> perm_can_delete_documents p = orgDefaultOr (default_can_delete_documents org) False
              \<and> (default_daily_message_quota org \<noteq> Some 0 \<longrightarrow>
                    perm_daily_message_quota p = orgDefaultOr (default_daily_message_quota org) 50))"
proof -
  have u': "u' = joinUpdate org u" and r: "resp = JoinOk"
    using assms by (simp_all add: joinOrganization_def)
  have stored: "role u' = Some ''employee''"
    "can_use_rag u' = Some (orgDefaultOr (default_can_use_rag org) False)"
    "can_upload_documents u' = Some (orgDefaultOr (default_can_upload_documents org) True)"
    "can_edit_documents u' = Some (orgDefaultOr (default_can_edit_documents org) False)"
    "can_delete_documents u' = Some (orgDefaultOr (default_can_delete_documents org) False)"
    "daily_message_quota u' = Some (orgDefaultOr (default_daily_message_quota org) 50)"
    by (simp_all add: u' joinUpdate_def joinDefaultPermissions_def orgDefaultOr_def Let_def)
  have me: "getMyPermissions (Returns (DbReply (Some u') None)) = MeOk ''employee'' (mePermissions u')"
    by (simp add: getMyPermissions_def meRole_def stored)
  have flags: "perm_can_use_rag (mePermissions u') = orgDefaultOr (default_can_use_rag org) False"
    "perm_can_upload_documents (mePermissions u') = orgDefaultOr (default_can_upload_documents org) True"
    "perm_can_edit_documents (mePermissions u') = orgDefaultOr (default_can_edit_documents org) False"
    "perm_can_delete_documents (mePermissions u') = orgDefaultOr (default_can_delete_documents org) False"
    by (simp_all add: mePermissions_def stored)
  have quota: "default_daily_message_quota org \<noteq> Some 0 \<longrightarrow>
     perm_daily_message_quota (mePermissions u') = orgDefaultOr (default_daily_message_quota org) 50"
    by (auto simp: mePermissions_def stored orgDefaultOr_def split: option.splits)
  from r stored me flags quota show ?thesis by blast
qed

theorem join_copies_org_defaults_witness:
  "joinOrganization (Returns (DbReply (Some demoOrg) None)) NoFault bareEmployee
     = (JoinOk, joinUpdate demoOrg bareEmployee)
   \<and> can_upload_documents (joinUpdate demoOrg bareEmployee) = Some True
   \<and> can_edit_documents (joinUpdate demoOrg bareEmployee) = Some False
   \<and> daily_message_quota (joinUpdate demoOrg bareEmployee) = Some 30
   \<and> default_daily_message_quota demoOrg \<noteq> Some 0
   \<and> getMyPermissions (Returns (DbReply (Some (joinUpdate demoOrg bareEmployee)) None))
       = MeOk ''employee'' \<lparr> perm_can_use_rag = False, perm_can_upload_documents = True,
                              perm_can_edit_documents = False, perm_can_delete_documents = False,
                              perm_daily_message_quota = 30 \<rparr>"
proof -
  have h: "joinOrganization (Returns (DbReply (Some demoOrg) None)) NoFault bareEmployee
           = (JoinOk, joinUpdate demoOrg bareEmployee)"
    by (simp add: joinOrganization_def)
  have n: "default_daily_message_quota demoOrg \<noteq> Some 0" by (simp add: demoOrg_def)
  have d: "orgDefaultOr (default_can_use_rag demoOrg) False = False"
    "orgDefaultOr (default_can_upload_documents demoOrg) True = True"
    "orgDefaultOr (default_can_edit_documents demoOrg) False = False"
    "orgDefaultOr (default_can_delete_documents demoOrg) False = False"
    "orgDefaultOr (default_daily_message_quota demoOrg) 50 = 30"
    by (simp_all add: orgDefaultOr_def demoOrg_def)
  from join_copies_org_defaults[OF h] n d
  obtain p where p: "getMyPermissions (Returns (DbReply (Some (joinUpdate demoOrg bareEmployee)) None))
                     = MeOk ''employee'' p"
    "perm_can_use_rag p = False" "perm_can_upload_documents p = True"
    "perm_can_edit_documents p = False" "perm_can_delete_documents p = False"
    "perm_daily_message_quota p = 30"
    by auto
  have "p = \<lparr> perm_can_use_rag = False, perm_can_upload_documents = True,
              perm_can_edit_documents = False, perm_can_delete_documents = False,
              perm_daily_message_quota = 30 \<rparr>"
    using p(2-) by (cases p) simp
  with join_copies_org_defaults[OF h] h n d p(1) show ?thesis by simp
qed

section \<open>Quota check\<close>

lemma checkDailyQuota_loaded:
  assumes "selectQuotaUser e uid = Returns (DbReply (Some u) None)"
  shows "checkDailyQuota e usage uid
         = (if role u = Some ''admin'' then QuotaNext None
            else case daily_message_quota u of
                   None \<Rightarrow> QuotaNext None
                 | Some limit \<Rightarrow>
                     (case selectUsage (usageSelectFault e) usage uid (today e) of
                        Throws \<Rightarrow> QuotaNext None
                      | Returns row \<Rightarrow>
                          (let currentCount = (case row of None \<Rightarrow> 0 | Some c \<Rightarrow> c) in
                           if currentCount \<ge> limit then QuotaReject limit currentCount
                           else QuotaNext (Some \<lparr> userDbId = uid, currentUsage = currentCount,
                                                  usageDate = today e \<rparr>))))"
  using assms by (simp add: checkDailyQuota_def)

lemma chatHandler_no_ctx:
  "incrementCall (chatHandler e s None r) = None"
  "daily_usage (state_after (chatHandler e s None r)) = daily_usage s"
  by (simp_all add: chatHandler_def usageArgs_def Let_def split: sum.splits outcome.splits)

text \<open>
  C4: for a user whose row is loaded, with a role other than admin and a daily quota
  \<open>L\<close>, and today's usage count \<open>U\<close> (the count of the row of the user and the UTC
  date, 0 without a row), the quota check lets the request through to the handler iff
  \<open>U < L\<close>, and otherwise answers 429 with the limit and the used count, without a model
  call; for role admin or a null quota the request is always let through.
\<close>

theorem quota_allows_iff_below_limit:
  assumes "selectQuotaUser e (userId r) = Returns (DbReply (Some u) None)"
      and "usageSelectFault e = NoFault"
      and "U = (case daily_usage s (userId r, today e) of None \<Rightarrow> 0 | Some c \<Rightarrow> c)"
  shows "(role u \<noteq> Some ''admin'' \<and> daily_message_quota u = Some L \<and> U < L \<longrightarrow>
            checkDailyQuota e (daily_usage s) (userId r)
              = QuotaNext (Some \<lparr> userDbId = userId r, currentUsage = U, usageDate = today e \<rparr>)
          \<and> chatEndpoint e s r
              = chatHandler e s (Some \<lparr> userDbId = userId r, currentUsage = U, usageDate = today e \<rparr>) r)
       \<and> (role u \<noteq> Some ''admin'' \<and> daily_message_quota u = Some L \<and> \<not> U < L \<longrightarrow>
            checkDailyQuota e (daily_usage s) (userId r) = QuotaReject L U
          \<and> response (chatEndpoint e s r) = QuotaReached L U
          \<and> status (response (chatEndpoint e s r)) = 429
          \<and> modelCall (chatEndpoint e s r) = None)
       \<and> (role u = Some ''admin'' \<or> daily_message_quota u = None \<longrightarrow>
            checkDailyQuota e (daily_usage s) (userId r) = QuotaNext None
          \<and> chatEndpoint e s r = chatHandler e s None r)"
  using assms(2,3)
  by (auto simp: checkDailyQuota_loaded[OF assms(1)] chatEndpoint_def selectUsage_def Let_def
           split: option.splits)

theorem quota_allows_iff_below_limit_witness:
  "selectQuotaUser demoEnv (userId demoRequest) = Returns (DbReply (Some demoUser) None)
   \<and> usageSelectFault demoEnv = NoFault
   \<and> role demoUser \<noteq> Some ''admin'' \<and> daily_message_quota demoUser = Some 2
   \<and> daily_usage (usedState 1) (userId demoRequest, today demoEnv) = Some 1 \<and> (1 :: int) < 2
   \<and> checkDailyQuota demoEnv (daily_usage (usedState 1)) (userId demoRequest)
       = QuotaNext (Some \<lparr> userDbId = ''u1'', currentUsage = 1, usageDate = ''2025-01-15'' \<rparr>)
   \<and> daily_usage (usedState 2) (userId demoRequest, today demoEnv) = Some 2 \<and> \<not> (2 :: int) < 2
   \<and> response (chatEndpoint demoEnv (usedState 2) demoRequest) = QuotaReached 2 2
   \<and> status (response (chatEndpoint demoEnv (usedState 2) demoRequest)) = 429
   \<and> selectQuotaUser adminEnv (userId demoRequest) = Returns (DbReply (Some adminUser) None)
   \<and> usageSelectFault adminEnv = NoFault
   \<and> role adminUser = Some ''admin''
   \<and> checkDailyQuota adminEnv (daily_usage (usedState 2)) (userId demoRequest) = QuotaNext None"
proof -
  have e1: "selectQuotaUser demoEnv (userId demoRequest) = Returns (DbReply (Some demoUser) None)"
    and e2: "usageSelectFault demoEnv = NoFault"
    and e3: "selectQuotaUser adminEnv (userId demoRequest) = Returns (DbReply (Some adminUser) None)"
    and e4: "usageSelectFault adminEnv = NoFault"
    by (simp_all add: demoEnv_def adminEnv_def)
  have u: "role demoUser \<noteq> Some ''admin''" "daily_message_quota demoUser = Some 2"
    "role adminUser = Some ''admin''"
    by (simp_all add: demoUser_def adminUser_def)
  have s1: "daily_usage (usedState 1) (userId demoRequest, today demoEnv) = Some 1"
    and s2: "daily_usage (usedState 2) (userId demoRequest, today demoEnv) = Some 2"
    by (simp_all add: usedState_def demoRequest_def demoEnv_def)
  have k: "userId demoRequest = ''u1''" "today demoEnv = ''2025-01-15''"
    by (simp_all add: demoRequest_def demoEnv_def)
  have a: "checkDailyQuota demoEnv (daily_usage (usedState 1)) (userId demoRequest)
       = QuotaNext (Some \<lparr> userDbId = ''u1'', currentUsage = 1, usageDate = ''2025-01-15'' \<rparr>)"
    using quota_allows_iff_below_limit[OF e1 e2, of 1 "usedState 1" 2] u s1 k by simp
  have b: "response (chatEndpoint demoEnv (usedState 2) demoRequest) = QuotaReached 2 2"
    "status (response (chatEndpoint demoEnv (usedState 2) demoRequest)) = 429"
    using quota_allows_iff_below_limit[OF e1 e2, of 2 "usedState 2" 2] u s2 by simp_all
  have c: "checkDailyQuota adminEnv (daily_usage (usedState 2)) (userId demoRequest) = QuotaNext None"
    using quota_allows_iff_below_limit[OF e3 e4, of 2 "usedState 2" 2] u s2 k
    by (simp add: adminEnv_def)
  from e1 e2 e3 e4 u s1 s2 a b c show ?thesis by simp
qed

text \<open>
  C5 (as stated, refuted): the claim says that a request whose user row cannot be loaded
  is rejected. With a users query that finds no row, the request of a user who has
  already used 2 prompts is answered with 200 and the model is invoked.
\<close>

theorem missing_user_is_let_through:
  "selectQuotaUser lostUserEnv (userId demoRequest) = Returns (DbReply None (Some ''PGRST116''))
   \<and> response (chatEndpoint lostUserEnv (usedState 2) demoRequest) = ChatOk ''ok'' ''c1'' False None
   \<and> status (response (chatEndpoint lostUserEnv (usedState 2) demoRequest)) = 200
   \<and> modelCall (chatEndpoint lostUserEnv (usedState 2) demoRequest) = Some ([], ''hello'')"
  by code_simp

text \<open>
  C5 (amended): if the user row cannot be loaded during the quota check (the query
  rejects, returns an error, or returns no row), the middleware does not block: it calls
  \<open>next()\<close> without a usage context, the handler runs as for any other request, and the
  request records no usage.
\<close>

theorem quota_check_fails_open:
  assumes "selectQuotaUser e (userId r) = Throws
         \<or> (\<exists>user err. selectQuotaUser e (userId r) = Returns (DbReply user (Some err)))
         \<or> selectQuotaUser e (userId r) = Returns (DbReply None None)"
  shows "checkDailyQuota e (daily_usage s) (userId r) = QuotaNext None
       \<and> chatEndpoint e s r = chatHandler e s None r
       \<and> incrementCall (chatEndpoint e s r) = None
       \<and> daily_usage (state_after (chatEndpoint e s r)) = daily_usage s"
proof -
  have q: "checkDailyQuota e (daily_usage s) (userId r) = QuotaNext None"
    using assms by (auto simp: checkDailyQuota_def)
  then have ep: "chatEndpoint e s r = chatHandler e s None r"
    by (simp add: chatEndpoint_def)
  have "incrementCall (chatHandler e s None r) = None"
    "daily_usage (state_after (chatHandler e s None r)) = daily_usage s"
    by (simp_all add: chatHandler_def usageArgs_def Let_def split: sum.splits outcome.splits)
  with q ep show ?thesis by simp
qed

theorem quota_check_fails_open_witness:
  "selectQuotaUser lostUserEnv (userId demoRequest) = Returns (DbReply None (Some ''PGRST116''))
   \<and> checkDailyQuota lostUserEnv (daily_usage (usedState 2)) (userId demoRequest) = QuotaNext None
   \<and> incrementCall (chatEndpoint lostUserEnv (usedState 2) demoRequest) = None
   \<and> daily_usage (state_after (chatEndpoint lostUserEnv (usedState 2) demoRequest)) = daily_usage (usedState 2)"
proof -
  have h: "selectQuotaUser lostUserEnv (userId demoRequest) = Returns (DbReply None (Some ''PGRST116''))"
    by (simp add: lostUserEnv_def)
  then have "selectQuotaUser lostUserEnv (userId demoRequest) = Throws
         \<or> (\<exists>user err. selectQuotaUser lostUserEnv (userId demoRequest) = Returns (DbReply user (Some err)))
         \<or> selectQuotaUser lostUserEnv (userId demoRequest) = Returns (DbReply None None)"
    by blast
  from quota_check_fails_open[OF this, of "usedState 2"] h show ?thesis by blast
qed

text \<open>
  C10: for a request of a user with role admin or with a null daily quota, the quota
  middleware attaches no usage context, \<open>incrementDailyUsage\<close> is not invoked and the
  \<open>daily_usage\<close> table is unchanged, whatever the handler answers.
\<close>

theorem unlimited_user_usage_unchanged:
  assumes "selectQuotaUser e (userId r) = Returns (DbReply (Some u) None)"
      and "role u = Some ''admin'' \<or> daily_message_quota u = None"
  shows "checkDailyQuota e (daily_usage s) (userId r) = QuotaNext None
       \<and> chatEndpoint e s r = chatHandler e s None r
       \<and> incrementCall (chatEndpoint e s r) = None
       \<and> daily_usage (state_after (chatEndpoint e s r)) = daily_usage s"
proof -
  have q: "checkDailyQuota e (daily_usage s) (userId r) = QuotaNext None"
    using assms(2) by (auto simp: checkDailyQuota_loaded[OF assms(1)])
  then have ep: "chatEndpoint e s r = chatHandler e s None r"
    by (simp add: chatEndpoint_def)
  from q ep chatHandler_no_ctx[of e s r] show ?thesis by simp
qed

theorem unlimited_user_usage_unchanged_witness:
  "selectQuotaUser adminEnv (userId demoRequest) = Returns (DbReply (Some adminUser) None)
   \<and> (role adminUser = Some ''admin'' \<or> daily_message_quota adminUser = None)
   \<and> status (response (chatEndpoint adminEnv (usedState 2) demoRequest)) = 200
   \<and> incrementCall (chatEndpoint adminEnv (usedState 2) demoRequest) = None
   \<and> daily_usage (state_after (chatEndpoint adminEnv (usedState 2) demoRequest)) = daily_usage (usedState 2)"
proof -
  have h1: "selectQuotaUser adminEnv (userId demoRequest) = Returns (DbReply (Some adminUser) None)"
    by (simp add: adminEnv_def)
  have h2: "role adminUser = Some ''admin'' \<or> daily_message_quota adminUser = None"
    by (simp add: adminUser_def)
  have ok: "status (response (chatEndpoint adminEnv (usedState 2) demoRequest)) = 200"
    by code_simp
  from unlimited_user_usage_unchanged[OF h1 h2, of "usedState 2"] h1 h2 ok show ?thesis by blast
qed

section \<open>Usage increment\<close>

lemma incrementDailyUsage_upsert:
  assumes "incSelectFault e = NoFault" "incUpdateFault e = NoFault" "incInsertFault e = NoFault"
  shows "incrementDailyUsage e usage uid date
         = usage((uid, date) \<mapsto> (case usage (uid, date) of None \<Rightarrow> 1 | Some c \<Rightarrow> c + 1))"
  using assms
  by (simp add: incrementDailyUsage_def selectUsage_def updateUsage_def insertUsage_def
           split: option.splits)


lemma chatEndpoint_model_throws:
  assumes "modelCall (chatEndpoint e s r) = Some (h, prompt)" and "sendMessage e h prompt = Throws"
  shows "response (chatEndpoint e s r) = ServerError"
  using assms
  by (auto simp: chatEndpoint_def chatHandler_def Let_def
           split: quota_decision.splits sum.splits outcome.splits)

lemma withIncFaults_simps [simp]:
  "selectQuotaUser (withIncFaults e f1 f2 f3) = selectQuotaUser e"
  "today (withIncFaults e f1 f2 f3) = today e"
  "usageSelectFault (withIncFaults e f1 f2 f3) = usageSelectFault e"
  "countMessages (withIncFaults e f1 f2 f3) = countMessages e"
  "selectRagUser (withIncFaults e f1 f2 f3) = selectRagUser e"
  "generateEmbedding (withIncFaults e f1 f2 f3) = generateEmbedding e"
  "indexQuery (withIncFaults e f1 f2 f3) = indexQuery e"
  "sendMessage (withIncFaults e f1 f2 f3) = sendMessage e"
  by (simp_all add: withIncFaults_def)

lemma services_withIncFaults:
  "chatLimit (withIncFaults e f1 f2 f3) cid = chatLimit e cid"
  "ragPermitted (withIncFaults e f1 f2 f3) r msg = ragPermitted e r msg"
  "getRelevantContext (withIncFaults e f1 f2 f3) query topK = getRelevantContext e query topK"
  unfolding chatLimit_def ragPermitted_def getRelevantContext_def withIncFaults_simps
  by (rule refl)+

lemma prepareChat_withIncFaults:
  "prepareChat (withIncFaults e f1 f2 f3) convs r = prepareChat e convs r"
  unfolding prepareChat_def services_withIncFaults ..

lemma checkDailyQuota_withIncFaults:
  "checkDailyQuota (withIncFaults e f1 f2 f3) usage uid = checkDailyQuota e usage uid"
  unfolding checkDailyQuota_def withIncFaults_simps ..

lemma chatHandler_withIncFaults:
  "response (chatHandler (withIncFaults e f1 f2 f3) s ctx r) = response (chatHandler e s ctx r)"
  "conversations (state_after (chatHandler (withIncFaults e f1 f2 f3) s ctx r))
   = conversations (state_after (chatHandler e s ctx r))"
  "modelCall (chatHandler (withIncFaults e f1 f2 f3) s ctx r) = modelCall (chatHandler e s ctx r)"
  by (simp_all add: chatHandler_def prepareChat_withIncFaults Let_def split: sum.splits outcome.splits)

text \<open>
  C6: without faults \<open>incrementDailyUsage\<close> is an upsert: it creates the row of
  \<open>(user, date)\<close> with count 1, or adds 1 to the count of the existing row. The route
  invokes it only on a request that it answers with 200 after a model call; when the
  model call rejects, the answer is 500, the function is not invoked and the table is
  unchanged. Whatever faults occur inside it, the response and the stored conversation
  are the same.
\<close>

theorem usage_increment_best_effort:
  "(incSelectFault e = NoFault \<and> incUpdateFault e = NoFault \<and> incInsertFault e = NoFault \<longrightarrow>
      incrementDailyUsage e usage uid date
      = usage((uid, date) \<mapsto> (case usage (uid, date) of None \<Rightarrow> 1 | Some c \<Rightarrow> c + 1)))
   \<and> (incrementCall (chatEndpoint e s r) \<noteq> None \<longrightarrow>
        status (response (chatEndpoint e s r)) = 200 \<and> modelCall (chatEndpoint e s r) \<noteq> None)
   \<and> (modelCall (chatEndpoint e s r) = Some (h, prompt) \<and> sendMessage e h prompt = Throws \<longrightarrow>
        status (response (chatEndpoint e s r)) = 500
        \<and> incrementCall (chatEndpoint e s r) = None
        \<and> daily_usage (state_after (chatEndpoint e s r)) = daily_usage s)
   \<and> response (chatEndpoint (withIncFaults e f1 f2 f3) s r) = response (chatEndpoint e s r)
   \<and> conversations (state_after (chatEndpoint (withIncFaults e f1 f2 f3) s r))
       = conversations (state_after (chatEndpoint e s r))"
proof -
  have a: "incSelectFault e = NoFault \<and> incUpdateFault e = NoFault \<and> incInsertFault e = NoFault \<longrightarrow>
      incrementDailyUsage e usage uid date
      = usage((uid, date) \<mapsto> (case usage (uid, date) of None \<Rightarrow> 1 | Some c \<Rightarrow> c + 1))"
    using incrementDailyUsage_upsert[of e usage uid date] by blast
  have b: "incrementCall (chatEndpoint e s r) \<noteq> None \<longrightarrow>
        status (response (chatEndpoint e s r)) = 200 \<and> modelCall (chatEndpoint e s r) \<noteq> None"
    by (auto simp: chatEndpoint_def chatHandler_def Let_def
             split: quota_decision.splits sum.splits outcome.splits)
  have c: "modelCall (chatEndpoint e s r) = Some (h, prompt) \<and> sendMessage e h prompt = Throws \<longrightarrow>
        status (response (chatEndpoint e s r)) = 500
        \<and> incrementCall (chatEndpoint e s r) = None
        \<and> daily_usage (state_after (chatEndpoint e s r)) = daily_usage s"
  proof
    assume m: "modelCall (chatEndpoint e s r) = Some (h, prompt) \<and> sendMessage e h prompt = Throws"
    then have r: "response (chatEndpoint e s r) = ServerError"
      using chatEndpoint_model_throws by blast
    then have "status (response (chatEndpoint e s r)) \<noteq> 200" by simp
    from chatEndpoint_not_ok[OF this] r
    show "status (response (chatEndpoint e s r)) = 500
        \<and> incrementCall (chatEndpoint e s r) = None
        \<and> daily_usage (state_after (chatEndpoint e s r)) = daily_usage s" by simp
  qed
  have d: "response (chatEndpoint (withIncFaults e f1 f2 f3) s r) = response (chatEndpoint e s r)"
    "conversations (state_after (chatEndpoint (withIncFaults e f1 f2 f3) s r))
       = conversations (state_after (chatEndpoint e s r))"
    by (simp_all add: chatEndpoint_def checkDailyQuota_withIncFaults chatHandler_withIncFaults
             split: quota_decision.splits)
  from a b c d show ?thesis by blast
qed

theorem usage_increment_best_effort_witness:
  "incSelectFault demoEnv = NoFault \<and> incUpdateFault demoEnv = NoFault \<and> incInsertFault demoEnv = NoFault
   \<and> incrementDailyUsage demoEnv Map.empty ''u1'' ''2025-01-15'' = [(''u1'', ''2025-01-15'') \<mapsto> 1]
   \<and> incrementDailyUsage demoEnv [(''u1'', ''2025-01-15'') \<mapsto> 1] ''u1'' ''2025-01-15''
       = [(''u1'', ''2025-01-15'') \<mapsto> 2]
   \<and> incrementCall (chatEndpoint demoEnv (usedState 1) demoRequest) \<noteq> None
   \<and> status (response (chatEndpoint demoEnv (usedState 1) demoRequest)) = 200
   \<and> modelCall (chatEndpoint silentModelEnv (usedState 1) demoRequest) = Some ([], ''hello'')
   \<and> sendMessage silentModelEnv [] ''hello'' = Throws
   \<and> status (response (chatEndpoint silentModelEnv (usedState 1) demoRequest)) = 500
   \<and> daily_usage (state_after (chatEndpoint silentModelEnv (usedState 1) demoRequest))
       = daily_usage (usedState 1)
   \<and> response (chatEndpoint (withIncFaults demoEnv Throw Throw Throw) (usedState 1) demoRequest)
       = ChatOk ''ok'' ''c1'' False None"
proof -
  have f: "incSelectFault demoEnv = NoFault \<and> incUpdateFault demoEnv = NoFault \<and> incInsertFault demoEnv = NoFault"
    by (simp add: demoEnv_def)
  have i: "incrementCall (chatEndpoint demoEnv (usedState 1) demoRequest) \<noteq> None" by code_simp
  have m: "modelCall (chatEndpoint silentModelEnv (usedState 1) demoRequest) = Some ([], ''hello'')"
    by code_simp
  have t: "sendMessage silentModelEnv [] ''hello'' = Throws" by (simp add: silentModelEnv_def)
  have ok: "response (chatEndpoint demoEnv (usedState 1) demoRequest) = ChatOk ''ok'' ''c1'' False None"
    by code_simp
  have u1: "incrementDailyUsage demoEnv Map.empty ''u1'' ''2025-01-15'' = [(''u1'', ''2025-01-15'') \<mapsto> 1]"
    using usage_increment_best_effort[of demoEnv Map.empty "''u1''" "''2025-01-15''"] f by simp
  have u2: "incrementDailyUsage demoEnv [(''u1'', ''2025-01-15'') \<mapsto> 1] ''u1'' ''2025-01-15''
       = [(''u1'', ''2025-01-15'') \<mapsto> 2]"
    using usage_increment_best_effort[of demoEnv "[(''u1'', ''2025-01-15'') \<mapsto> 1]" "''u1''" "''2025-01-15''"] f
    by simp
  have s: "status (response (chatEndpoint demoEnv (usedState 1) demoRequest)) = 200"
    using usage_increment_best_effort[of demoEnv _ _ _ "usedState 1" demoRequest] i by blast
  have fail: "status (response (chatEndpoint silentModelEnv (usedState 1) demoRequest)) = 500
     \<and> daily_usage (state_after (chatEndpoint silentModelEnv (usedState 1) demoRequest))
       = daily_usage (usedState 1)"
    using usage_increment_best_effort[of silentModelEnv _ _ _ "usedState 1" demoRequest "[]" "''hello''"] m t
    by blast
  have sw: "response (chatEndpoint (withIncFaults demoEnv Throw Throw Throw) (usedState 1) demoRequest)
       = ChatOk ''ok'' ''c1'' False None"
    using usage_increment_best_effort[of demoEnv _ _ _ "usedState 1" demoRequest _ _ Throw Throw Throw] ok
    by simp
  from f i m t u1 u2 s fail sw show ?thesis by blast
qed

section \<open>Chat length ceiling\<close>

lemma chatLimit_reached:
  assumes "chatId r = Some c" "c \<noteq> []" "countMessages e c = Returns (Some n)" "n \<ge> MAX_MESSAGES_PER_CHAT"
  shows "chatLimit e (chatId r) = Returns (LimitReached n)"
  using assms by (simp add: chatLimit_def checkChatLimit_def)

lemma prepareChat_limit_reached:
  assumes "chatLimit e (chatId r) = Returns (LimitReached n)"
  shows "prepareChat e convs r
         = (case message r of
              None \<Rightarrow> Inl MessageRequired
            | Some msg \<Rightarrow> if msg = [] then Inl MessageRequired else Inl (ChatLimitReached n))"
  using assms by (simp add: prepareChat_def split: option.splits)

text \<open>
  C7: for a request that carries a chat id whose persisted message count \<open>n\<close> has
  reached 200, the model is never invoked, the state is unchanged and the answer is not
  200; when the request has a message and has passed the quota check, so that the
  handler reaches the limit check, the answer is status 400 with the error code
  \<open>chat_limit_reached\<close>.
\<close>

theorem chat_limit_reached_rejects:
  assumes "chatId r = Some c" and "c \<noteq> []"
      and "countMessages e c = Returns (Some n)" and "n \<ge> MAX_MESSAGES_PER_CHAT"
  shows "modelCall (chatEndpoint e s r) = None
       \<and> state_after (chatEndpoint e s r) = s
       \<and> status (response (chatEndpoint e s r)) \<noteq> 200
       \<and> (\<forall>msg ctx. message r = Some msg \<and> msg \<noteq> []
                    \<and> checkDailyQuota e (daily_usage s) (userId r) = QuotaNext ctx \<longrightarrow>
              response (chatEndpoint e s r) = ChatLimitReached n
            \<and> status (response (chatEndpoint e s r)) = 400
            \<and> error_code (response (chatEndpoint e s r)) = Some ''chat_limit_reached'')"
proof -
  note p = prepareChat_limit_reached[OF chatLimit_reached[OF assms], of "conversations s"]
  have h: "\<And>ctx. chatHandler e s ctx r
             = \<lparr> response = (case message r of
                                None \<Rightarrow> MessageRequired
                              | Some msg \<Rightarrow> if msg = [] then MessageRequired else ChatLimitReached n),
                 state_after = s, modelCall = None, incrementCall = None, appended = [] \<rparr>"
    by (simp add: chatHandler_def p split: option.splits)
  show ?thesis
    by (cases "checkDailyQuota e (daily_usage s) (userId r)")
       (auto simp: chatEndpoint_def h split: option.splits)
qed

theorem chat_limit_reached_rejects_witness:
  "chatId fullChatRequest = Some ''chat-7'' \<and> ''chat-7'' \<noteq> []
   \<and> countMessages fullChatEnv ''chat-7'' = Returns (Some 200) \<and> (200 :: int) \<ge> MAX_MESSAGES_PER_CHAT
   \<and> message fullChatRequest = Some ''hello'' \<and> ''hello'' \<noteq> []
   \<and> checkDailyQuota fullChatEnv (daily_usage demoState) (userId fullChatRequest)
       = QuotaNext (Some \<lparr> userDbId = ''u1'', currentUsage = 0, usageDate = ''2025-01-15'' \<rparr>)
   \<and> response (chatEndpoint fullChatEnv demoState fullChatRequest) = ChatLimitReached 200
   \<and> status (response (chatEndpoint fullChatEnv demoState fullChatRequest)) = 400
   \<and> error_code (response (chatEndpoint fullChatEnv demoState fullChatRequest)) = Some ''chat_limit_reached''
   \<and> modelCall (chatEndpoint fullChatEnv demoState fullChatRequest) = None"
proof -
  have h1: "chatId fullChatRequest = Some ''chat-7''" by (simp add: fullChatRequest_def)
  have h2: "''chat-7'' \<noteq> []" by simp
  have h3: "countMessages fullChatEnv ''chat-7'' = Returns (Some 200)" by (simp add: fullChatEnv_def)
  have h4: "(200 :: int) \<ge> MAX_MESSAGES_PER_CHAT" by (simp add: MAX_MESSAGES_PER_CHAT_def)
  have h5: "message fullChatRequest = Some ''hello''" "''hello'' \<noteq> []"
    by (simp_all add: fullChatRequest_def demoRequest_def)
  have h6: "checkDailyQuota fullChatEnv (daily_usage demoState) (userId fullChatRequest)
       = QuotaNext (Some \<lparr> userDbId = ''u1'', currentUsage = 0, usageDate = ''2025-01-15'' \<rparr>)"
    by code_simp
  from chat_limit_reached_rejects[OF h1 h2 h3 h4, of demoState] h1 h2 h3 h4 h5 h6
  show ?thesis by blast
qed

section \<open>Retrieval failure\<close>

lemma getRelevantContext_fails:
  assumes "generateEmbedding e q = Throws \<or> (\<exists>v. generateEmbedding e q = Returns v \<and> indexQuery e v k = Throws)"
  shows "getRelevantContext e q k = []"
  using assms by (auto simp: getRelevantContext_def)

lemma buildPrompt_longer: "length (buildPrompt context msg) > length msg"
  by (simp add: buildPrompt_def)

lemma buildPrompt_neq: "buildPrompt context msg \<noteq> msg"
  using buildPrompt_longer[of msg "context"] by auto

text \<open>
  C8: if the embedding call or the vector-store query rejects, \<open>getRelevantContext\<close>
  returns the empty string. Whenever the model is invoked, the prompt it is sent is,
  for a non-empty context, the line \<open>CONTEXTE DOCUMENTAIRE :\<close>, the context, a
  separator, \<open>QUESTION : \<close> with the original message, and the closing instruction; for
  an empty context it is the raw message; so the prompt is the raw message iff the
  context is empty. A request whose retrieval gives the empty string and whose other
  steps succeed sends the raw message to the model and is answered with 200 and
  \<open>hasContext = false\<close>.
\<close>

theorem retrieval_failure_degrades:
  "(generateEmbedding e q = Throws \<or> (\<exists>v. generateEmbedding e q = Returns v \<and> indexQuery e v k = Throws) \<longrightarrow>
      getRelevantContext e q k = [])
   \<and> (modelCall (chatEndpoint e s r) = Some (h, prompt) \<and> message r = Some msg \<longrightarrow>
        (let context = (if forceRAG r \<or> containsSpecificEntityNames msg
                        then getRelevantContext e msg 3 else [])
         in (context \<noteq> [] \<longrightarrow>
               prompt = ''CONTEXTE DOCUMENTAIRE :'' @ [CHR 0x0A] @ context @ [CHR 0x0A, CHR 0x0A]
                        @ ''---'' @ [CHR 0x0A, CHR 0x0A]
                        @ ''QUESTION : '' @ msg @ [CHR 0x0A, CHR 0x0A]
                        @ ''Utilise le contexte ci-dessus pour r'' @ [CHR 0xE9]
                        @ ''pondre avec pr'' @ [CHR 0xE9] @ ''cision.'')
            \<and> (context = [] \<longrightarrow> prompt = msg)
            \<and> (prompt = msg) = (context = [])))
   \<and> (getRelevantContext e msg 3 = []
        \<and> message r = Some msg \<and> msg \<noteq> []
        \<and> checkDailyQuota e (daily_usage s) (userId r) = QuotaNext ctx
        \<and> chatLimit e (chatId r) = Returns (LimitOk uiMessage)
        \<and> ragPermitted e r msg = Returns True
        \<and> sendMessage e (loadHistory (conversations s) (conversationKey r)) msg = Returns reply
        \<and> text_result reply = Returns aiResponse \<longrightarrow>
          response (chatEndpoint e s r) = ChatOk aiResponse (conversationKey r) False uiMessage
        \<and> status (response (chatEndpoint e s r)) = 200
        \<and> modelCall (chatEndpoint e s r) = Some (loadHistory (conversations s) (conversationKey r), msg))"
proof -
  have a: "generateEmbedding e q = Throws \<or> (\<exists>v. generateEmbedding e q = Returns v \<and> indexQuery e v k = Throws) \<longrightarrow>
      getRelevantContext e q k = []"
    using getRelevantContext_fails[of e q k] by blast
  have b: "let context = (if forceRAG r \<or> containsSpecificEntityNames msg
                        then getRelevantContext e msg 3 else [])
         in (context \<noteq> [] \<longrightarrow>
               prompt = ''CONTEXTE DOCUMENTAIRE :'' @ [CHR 0x0A] @ context @ [CHR 0x0A, CHR 0x0A]
                        @ ''---'' @ [CHR 0x0A, CHR 0x0A]
                        @ ''QUESTION : '' @ msg @ [CHR 0x0A, CHR 0x0A]
                        @ ''Utilise le contexte ci-dessus pour r'' @ [CHR 0xE9]
                        @ ''pondre avec pr'' @ [CHR 0xE9] @ ''cision.'')
            \<and> (context = [] \<longrightarrow> prompt = msg)
            \<and> (prompt = msg) = (context = [])"
    if m: "modelCall (chatEndpoint e s r) = Some (h, prompt) \<and> message r = Some msg"
  proof -
    obtain p where p: "prepareChat e (conversations s) r = Inr p" "prompt = prep_enhancedMessage p"
      using chatEndpoint_modelCall[of e s r h prompt] m by blast
    have msg: "prep_message p = msg" using prepareChat_Inr(3)[OF p(1)] m by simp
    define c where "c = prep_context p"
    have c: "c = (if forceRAG r \<or> containsSpecificEntityNames msg
                  then getRelevantContext e msg 3 else [])"
      using prepareChat_Inr(6)[OF p(1)] by (simp add: c_def msg)
    have pr: "prompt = (if c \<noteq> [] then buildPrompt c msg else msg)"
      using prepareChat_Inr(5)[OF p(1)] p(2) by (simp add: c_def msg)
    have "(c \<noteq> [] \<longrightarrow>
               prompt = ''CONTEXTE DOCUMENTAIRE :'' @ [CHR 0x0A] @ c @ [CHR 0x0A, CHR 0x0A]
                        @ ''---'' @ [CHR 0x0A, CHR 0x0A]
                        @ ''QUESTION : '' @ msg @ [CHR 0x0A, CHR 0x0A]
                        @ ''Utilise le contexte ci-dessus pour r'' @ [CHR 0xE9]
                        @ ''pondre avec pr'' @ [CHR 0xE9] @ ''cision.'')
            \<and> (c = [] \<longrightarrow> prompt = msg)
            \<and> (prompt = msg) = (c = [])"
      using pr buildPrompt_neq[of c msg] by (simp add: buildPrompt_def newline_def)
    then show ?thesis unfolding c Let_def .
  qed
  have c: "getRelevantContext e msg 3 = []
        \<and> message r = Some msg \<and> msg \<noteq> []
        \<and> checkDailyQuota e (daily_usage s) (userId r) = QuotaNext ctx
        \<and> chatLimit e (chatId r) = Returns (LimitOk uiMessage)
        \<and> ragPermitted e r msg = Returns True
        \<and> sendMessage e (loadHistory (conversations s) (conversationKey r)) msg = Returns reply
        \<and> text_result reply = Returns aiResponse \<longrightarrow>
          response (chatEndpoint e s r) = ChatOk aiResponse (conversationKey r) False uiMessage
        \<and> status (response (chatEndpoint e s r)) = 200
        \<and> modelCall (chatEndpoint e s r) = Some (loadHistory (conversations s) (conversationKey r), msg)"
    by (simp add: chatEndpoint_def chatHandler_def prepareChat_def Let_def)
  from a b c show ?thesis by blast
qed

theorem retrieval_failure_degrades_witness:
  "generateEmbedding demoEnv ''Parle-moi de Rousseau'' = Throws
   \<and> getRelevantContext demoEnv ''Parle-moi de Rousseau'' 3 = []
   \<and> message ragRequest = Some ''Parle-moi de Rousseau''
   \<and> containsSpecificEntityNames ''Parle-moi de Rousseau''
   \<and> response (chatEndpoint demoEnv demoState ragRequest) = ChatOk ''ok'' ''c1'' False None
   \<and> status (response (chatEndpoint demoEnv demoState ragRequest)) = 200
   \<and> modelCall (chatEndpoint demoEnv demoState ragRequest) = Some ([], ''Parle-moi de Rousseau'')
   \<and> getRelevantContext ragEnv ''Parle-moi de Rousseau'' 3 = ''[Source: bilan.pdf]'' @ [CHR 0x0A] @ ''CA 2024''
   \<and> modelCall (chatEndpoint ragEnv demoState ragRequest)
       = Some ([], ''CONTEXTE DOCUMENTAIRE :'' @ [CHR 0x0A]
                   @ ''[Source: bilan.pdf]'' @ [CHR 0x0A] @ ''CA 2024'' @ [CHR 0x0A, CHR 0x0A]
                   @ ''---'' @ [CHR 0x0A, CHR 0x0A]
                   @ ''QUESTION : Parle-moi de Rousseau'' @ [CHR 0x0A, CHR 0x0A]
                   @ ''Utilise le contexte ci-dessus pour r'' @ [CHR 0xE9]
                   @ ''pondre avec pr'' @ [CHR 0xE9] @ ''cision.'')
   \<and> response (chatEndpoint ragEnv demoState ragRequest) = ChatOk ''ok'' ''c1'' True None"
proof -
  let ?msg = "''Parle-moi de Rousseau''"
  let ?ctxt = "''[Source: bilan.pdf]'' @ [CHR 0x0A] @ ''CA 2024''"
  let ?prompt = "''CONTEXTE DOCUMENTAIRE :'' @ [CHR 0x0A]
                   @ ''[Source: bilan.pdf]'' @ [CHR 0x0A] @ ''CA 2024'' @ [CHR 0x0A, CHR 0x0A]
                   @ ''---'' @ [CHR 0x0A, CHR 0x0A]
                   @ ''QUESTION : Parle-moi de Rousseau'' @ [CHR 0x0A, CHR 0x0A]
                   @ ''Utilise le contexte ci-dessus pour r'' @ [CHR 0xE9]
                   @ ''pondre avec pr'' @ [CHR 0xE9] @ ''cision.''"
  have e: "generateEmbedding demoEnv ?msg = Throws" by (simp add: demoEnv_def)
  have m: "message ragRequest = Some ?msg" "?msg \<noteq> []"
    by (simp_all add: ragRequest_def)
  have d: "containsSpecificEntityNames ?msg" by code_simp
  have g: "getRelevantContext demoEnv ?msg 3 = []"
    using retrieval_failure_degrades[where e=demoEnv and q="?msg" and k=3] e by blast
  have q: "checkDailyQuota demoEnv (daily_usage demoState) (userId ragRequest)
           = QuotaNext (Some \<lparr> userDbId = ''u1'', currentUsage = 0, usageDate = ''2025-01-15'' \<rparr>)"
    by code_simp
  have l: "chatLimit demoEnv (chatId ragRequest) = Returns (LimitOk None)" by code_simp
  have p: "ragPermitted demoEnv ragRequest ?msg = Returns True" by code_simp
  have a: "sendMessage demoEnv (loadHistory (conversations demoState) (conversationKey ragRequest)) ?msg
           = Returns (ModelReply (Some ''ok'') (Returns ''ok''))"
    "text_result (ModelReply (Some ''ok'') (Returns ''ok'')) = Returns ''ok''"
    by (simp_all add: demoEnv_def)
  have k: "conversationKey ragRequest = ''c1''" "loadHistory (conversations demoState) ''c1'' = []"
    by code_simp+
  have ok: "response (chatEndpoint demoEnv demoState ragRequest) = ChatOk ''ok'' ''c1'' False None
     \<and> status (response (chatEndpoint demoEnv demoState ragRequest)) = 200
     \<and> modelCall (chatEndpoint demoEnv demoState ragRequest) = Some ([], ?msg)"
    using retrieval_failure_degrades[where e=demoEnv and s=demoState and r=ragRequest and msg="?msg"
        and ctx="Some \<lparr> userDbId = ''u1'', currentUsage = 0, usageDate = ''2025-01-15'' \<rparr>"
        and uiMessage=None and aiResponse="''ok''" and reply="ModelReply (Some ''ok'') (Returns ''ok'')"]
      g m q l p a k by simp
  have c: "getRelevantContext ragEnv ?msg 3 = ?ctxt" by code_simp
  have mc: "modelCall (chatEndpoint ragEnv demoState ragRequest) = Some ([], ?prompt)"
    by code_simp
  have hc: "response (chatEndpoint ragEnv demoState ragRequest) = ChatOk ''ok'' ''c1'' True None"
    by code_simp
  have "(?prompt = ?msg) = (?ctxt = [])"
    using retrieval_failure_degrades[where e=ragEnv and s=demoState and r=ragRequest and msg="?msg"
        and h="[]" and prompt="?prompt"] mc m(1) d c
    by (simp add: Let_def)
  with e g m(1) d ok c mc hc show ?thesis by blast
qed

section \<open>Document chunking\<close>

lemma chunkLoop_concat:
  "i \<le> length str \<Longrightarrow> concat (chunkLoop str i chunks) = concat chunks @ drop i str"
proof (induction str i chunks rule: chunkLoop.induct)
  case (1 str i chunks)
  show ?case
  proof (cases "i < length str")
    case True
    show ?thesis
    proof (cases "i + MAX_CHUNK_SIZE \<le> length str")
      case le: True
      have "concat (chunkLoop str i chunks)
            = concat (chunks @ [slice str i (i + MAX_CHUNK_SIZE)]) @ drop (i + MAX_CHUNK_SIZE) str"
        using True le "1.IH" by (subst chunkLoop.simps) simp
      also have "\<dots> = concat chunks @ (take MAX_CHUNK_SIZE (drop i str) @ drop MAX_CHUNK_SIZE (drop i str))"
        by (simp add: slice_def add.commute)
      also have "\<dots> = concat chunks @ drop i str"
        by (simp only: append_take_drop_id)
      finally show ?thesis .
    next
      case gt: False
      have "chunkLoop str (i + MAX_CHUNK_SIZE) (chunks @ [slice str i (i + MAX_CHUNK_SIZE)])
            = chunks @ [slice str i (i + MAX_CHUNK_SIZE)]"
        using gt by (subst chunkLoop.simps) simp
      then have "concat (chunkLoop str i chunks) = concat chunks @ slice str i (i + MAX_CHUNK_SIZE)"
        using True by (subst chunkLoop.simps) simp
      also have "slice str i (i + MAX_CHUNK_SIZE) = drop i str"
        using gt by (simp add: slice_def)
      finally show ?thesis .
    qed
  next
    case False
    with "1.prems" show ?thesis by (subst chunkLoop.simps) simp
  qed
qed

lemma chunkLoop_bounded:
  "set (chunkLoop str i chunks) \<subseteq> set chunks \<union> {c. length c \<le> MAX_CHUNK_SIZE}"
proof (induction str i chunks rule: chunkLoop.induct)
  case (1 str i chunks)
  show ?case
  proof (cases "i < length str")
    case True
    have "length (slice str i (i + MAX_CHUNK_SIZE)) \<le> MAX_CHUNK_SIZE"
      by (simp add: slice_def)
    with True "1.IH" show ?thesis by (subst chunkLoop.simps) auto
  next
    case False
    then show ?thesis by (subst chunkLoop.simps) simp
  qed
qed

lemma chunkLoop_nth:
  "i = length chunks * MAX_CHUNK_SIZE \<Longrightarrow>
   \<forall>k < length chunks. chunks ! k = slice str (k * MAX_CHUNK_SIZE) (k * MAX_CHUNK_SIZE + MAX_CHUNK_SIZE) \<Longrightarrow>
   k < length (chunkLoop str i chunks) \<Longrightarrow>
   chunkLoop str i chunks ! k = slice str (k * MAX_CHUNK_SIZE) (k * MAX_CHUNK_SIZE + MAX_CHUNK_SIZE)"
proof (induction str i chunks rule: chunkLoop.induct)
  case (1 str i chunks)
  show ?case
  proof (cases "i < length str")
    case True
    let ?chunks' = "chunks @ [slice str i (i + MAX_CHUNK_SIZE)]"
    have step: "chunkLoop str i chunks = chunkLoop str (i + MAX_CHUNK_SIZE) ?chunks'"
      using True by (subst chunkLoop.simps) simp
    have a: "i + MAX_CHUNK_SIZE = length ?chunks' * MAX_CHUNK_SIZE"
      using "1.prems"(1) by simp
    have b: "\<forall>k < length ?chunks'. ?chunks' ! k = slice str (k * MAX_CHUNK_SIZE) (k * MAX_CHUNK_SIZE + MAX_CHUNK_SIZE)"
      using "1.prems"(1,2) by (auto simp: nth_append less_Suc_eq)
    show ?thesis
      using "1.IH"[OF True a b] "1.prems"(3) step by simp
  next
    case False
    then have "chunkLoop str i chunks = chunks" by (subst chunkLoop.simps) simp
    with "1.prems" show ?thesis by simp
  qed
qed

lemma chunkText_20000:
  assumes "length str = 20000"
  shows "map length (chunkText str) = [8000, 8000, 4000]"
proof -
  have "chunkLoop str 0 [] = [slice str 0 8000, slice str 8000 16000, slice str 16000 24000]"
    using assms
    by (simp add: chunkLoop.simps[of str] MAX_CHUNK_SIZE_def)
  then show ?thesis using assms by (simp add: chunkText_def MAX_CHUNK_SIZE_def slice_def)
qed

text \<open>
  C9: the chunks of a text are contiguous slices of at most 8000 characters, chunk \<open>k\<close>
  starting at offset \<open>8000 * k\<close>; their concatenation is the text; a text of at most
  8000 characters gives the single chunk that is the text; a text of 20000 characters
  gives three chunks of lengths 8000, 8000 and 4000.
\<close>

theorem chunkText_contiguous_slices:
  "concat (chunkText str) = str
   \<and> (\<forall>c \<in> set (chunkText str). length c \<le> MAX_CHUNK_SIZE)
   \<and> (\<forall>k < length (chunkText str).
         chunkText str ! k = slice str (k * MAX_CHUNK_SIZE) (k * MAX_CHUNK_SIZE + MAX_CHUNK_SIZE))
   \<and> (length str \<le> MAX_CHUNK_SIZE \<longrightarrow> chunkText str = [str])
   \<and> (length str = 20000 \<longrightarrow> map length (chunkText str) = [8000, 8000, 4000])"
proof -
  have c: "concat (chunkText str) = str"
    using chunkLoop_concat[of 0 str "[]"] by (simp add: chunkText_def)
  have b: "\<forall>c \<in> set (chunkText str). length c \<le> MAX_CHUNK_SIZE"
    using chunkLoop_bounded[of str 0 "[]"] by (auto simp: chunkText_def)
  have n: "\<forall>k < length (chunkText str).
         chunkText str ! k = slice str (k * MAX_CHUNK_SIZE) (k * MAX_CHUNK_SIZE + MAX_CHUNK_SIZE)"
  proof (cases "length str > MAX_CHUNK_SIZE")
    case True
    then show ?thesis using chunkLoop_nth[where i=0 and chunks="[]" and str=str] by (simp add: chunkText_def)
  next
    case False
    then show ?thesis by (simp add: chunkText_def slice_def)
  qed
  have s: "length str \<le> MAX_CHUNK_SIZE \<longrightarrow> chunkText str = [str]"
    by (simp add: chunkText_def)
  from c b n s chunkText_20000[of str] show ?thesis by blast
qed

theorem chunkText_contiguous_slices_witness:
  "length ''abc'' \<le> MAX_CHUNK_SIZE \<and> chunkText ''abc'' = [''abc'']
   \<and> length (replicate 20000 (CHR ''x'')) = 20000
   \<and> map length (chunkText (replicate 20000 (CHR ''x''))) = [8000, 8000, 4000]
   \<and> concat (chunkText (replicate 20000 (CHR ''x''))) = replicate 20000 (CHR ''x'')
   \<and> (0 :: nat) < length (chunkText ''abc'')
   \<and> chunkText ''abc'' ! 0 = slice ''abc'' (0 * MAX_CHUNK_SIZE) (0 * MAX_CHUNK_SIZE + MAX_CHUNK_SIZE)
   \<and> ''abc'' \<in> set (chunkText ''abc'') \<and> length ''abc'' \<le> MAX_CHUNK_SIZE"
proof -
  have h1: "length ''abc'' \<le> MAX_CHUNK_SIZE" by (simp add: MAX_CHUNK_SIZE_def)
  have h2: "length (replicate 20000 (CHR ''x'')) = 20000" by simp
  from chunkText_contiguous_slices[of "''abc''"] h1
  have small: "chunkText ''abc'' = [''abc'']" by blast
  from chunkText_contiguous_slices[of "replicate 20000 (CHR ''x'')"] h2
  have big: "map length (chunkText (replicate 20000 (CHR ''x''))) = [8000, 8000, 4000]"
    "concat (chunkText (replicate 20000 (CHR ''x''))) = replicate 20000 (CHR ''x'')" by blast+
  have h3: "(0 :: nat) < length (chunkText ''abc'')" "''abc'' \<in> set (chunkText ''abc'')"
    using small by simp_all
  from chunkText_contiguous_slices[of "''abc''"] h3
  have nth: "chunkText ''abc'' ! 0 = slice ''abc'' (0 * MAX_CHUNK_SIZE) (0 * MAX_CHUNK_SIZE + MAX_CHUNK_SIZE)"
    by blast
  from h1 h2 small big h3 nth show ?thesis by blast
qed

end
